theory Spec2Isabelle
  imports Complex_Main
begin

section \<open>The adaptive scheduling and points engine\<close>

text \<open>
  A shallow embedding of the planner's pure core: \<open>calcTaskPoints\<close>, \<open>scoreTask\<close>,
  \<open>pickVariant\<close>, \<open>buildDayPlan\<close> and the learning update inside \<open>submitReview\<close>.

  Conventions of the embedding.
  \<^item> A JavaScript number is a rational (\<open>rat\<close>); \<open>NaN\<close> and the infinities are outside
    the model. On integers and halves (durations, counts, hours, points) the
    arithmetic of doubles is exact, every constant of the source that decides a branch
    there (3.0, 2.5, 2.0, 1.5, 10, 15) is a double, and the operations are those of the
    rationals. The learned average energy is a fraction with one decimal, which a
    double does not hold exactly: its update is modelled in double arithmetic, each
    operation rounded to the nearest double (\<open>fl\<close> below).
  \<^item> An object used as a dictionary is a partial map over its own keys; a missing or
    \<open>undefined\<close> field is \<open>None\<close>, an absent list is \<open>[]\<close>, an absent boolean flag is
    \<open>False\<close>. The members every object inherits from \<open>Object.prototype\<close> are not
    modelled: a task id is taken not to be one of their names (such as "constructor").
  \<^item> A \<open>Date\<close> is the pair of the two observations the code makes of it: its time in
    milliseconds and its weekday. A date string stands for the time it parses to.
  \<^item> \<open>buildDayPlan\<close> reads the clock once (\<open>new Date()\<close> at local midnight); the model
    takes that date as the argument \<open>today\<close>.
\<close>

subsection \<open>Numbers and the operators of the host language\<close>

type_synonym number = rat

definition Math_round :: "number \<Rightarrow> number" where
  "Math_round x = of_int \<lfloor>x + 1 / 2\<rfloor>"

definition Math_ceil :: "number \<Rightarrow> number" where
  "Math_ceil x = of_int \<lceil>x\<rceil>"

text \<open>\<open>a || b\<close> on a possibly missing number: \<open>undefined\<close> and \<open>0\<close> are falsy.\<close>

fun or_num :: "number option \<Rightarrow> number \<Rightarrow> number" where
  "or_num None d = d"
| "or_num (Some v) d = (if v = 0 then d else v)"

text \<open>\<open>parse(...) || null\<close>: a failed parse and \<open>0\<close> both become \<open>null\<close>.\<close>

fun or_null :: "number option \<Rightarrow> number option" where
  "or_null None = None"
| "or_null (Some v) = (if v = 0 then None else Some v)"

subsection \<open>Double arithmetic\<close>

text \<open>
  A double holds 53 significant bits. \<open>fl x\<close> is the double nearest to \<open>x\<close>, ties to the
  even significand (the rounding of every arithmetic operation of the host language);
  overflow and the subnormal range are outside the model. \<open>bits n\<close> is the length of
  \<open>n\<close> in binary, \<open>ilog2 x\<close> the exponent \<open>e\<close> with \<open>2^e \<le> |x| < 2^(e+1)\<close>, and the doubles
  of that binade are the multiples of \<open>2^(e-52)\<close>.
\<close>

fun bits :: "nat \<Rightarrow> nat" where
  "bits n = (if n = 0 then 0 else Suc (bits (n div 2)))"

declare bits.simps [simp del]

definition ilog2 :: "number \<Rightarrow> int" where
  "ilog2 x = (if 1 \<le> \<bar>x\<bar> then int (bits (nat \<lfloor>\<bar>x\<bar>\<rfloor>)) - 1
              else - int (bits (nat (\<lceil>1 / \<bar>x\<bar>\<rceil> - 1))))"

definition roundTiesToEven :: "number \<Rightarrow> int" where
  "roundTiesToEven q =
     (let f = \<lfloor>q\<rfloor>; r = q - of_int f
      in if r < 1 / 2 then f else if 1 / 2 < r then f + 1
         else if even f then f else f + 1)"

definition fl :: "number \<Rightarrow> number" where
  "fl x = (if x = 0 then 0
           else (let u = 2 powi (ilog2 x - 52)
                 in of_int (roundTiesToEven (x / u)) * u))"

text \<open>The operators \<open>*\<close>, \<open>+\<close> and \<open>/\<close> on doubles.\<close>

definition double_mul :: "number \<Rightarrow> number \<Rightarrow> number" where
  "double_mul x y = fl (x * y)"

definition double_add :: "number \<Rightarrow> number \<Rightarrow> number" where
  "double_add x y = fl (x + y)"

definition double_div :: "number \<Rightarrow> number \<Rightarrow> number" where
  "double_div x y = fl (x / y)"

subsection \<open>Constants\<close>

definition SLEEP_SCORES :: "string \<Rightarrow> number option" where
  "SLEEP_SCORES = map_of
     [(''terrible'', 1), (''poor'', 3), (''ok'', 5), (''good'', 7), (''great'', 9)]"

definition FREQ_DAYS :: "string \<Rightarrow> number option" where
  "FREQ_DAYS = map_of
     [(''daily'', 1), (''2x_daily'', 1 / 2), (''3x_weekly'', 233 / 100), (''weekly'', 7),
      (''2x_weekly'', 7 / 2), (''biweekly'', 14), (''monthly'', 30), (''once'', 9999)]"

definition BASE_POINTS_MIN :: number where
  "BASE_POINTS_MIN = 1"

definition LOW_ENERGY_SCALE :: "number \<Rightarrow> number option" where
  "LOW_ENERGY_SCALE = map_of [(1, 3), (2, 5 / 2), (3, 2), (4, 3 / 2)]"

subsection \<open>Data model\<close>

text \<open>
  A variant is \<open>{name, duration_minutes, energy_required}\<close>; its fields carry the prefix
  \<open>v_\<close> to keep them apart from the task's fields of the same names.

  The fields of a task that the engine reads; \<open>task_id\<close> is the field \<open>id\<close>. \<open>deadline\<close> is
  the time the deadline string parses to, \<open>None\<close> when the task has none. The remaining
  fields of the source (\<open>category\<close>, \<open>project\<close>, \<open>time_of_day\<close>, \<open>subtasks\<close>, \<open>cost\<close>) are
  carried through unread and are left out.
\<close>

record variant =
  v_name :: string
  v_duration_minutes :: number
  v_energy_required :: number

record task =
  task_id :: string
  name :: string
  mandatory :: bool
  critical :: bool
  energy_required :: number
  duration_minutes :: number
  frequency :: string
  deadline :: "int option"
  days_available :: "string list"
  variants :: "variant list"
  blockers :: "string list"

record morning =
  sleep :: string
  hours :: number
  energy :: number

record learned =
  count :: number
  avg_duration :: number
  avg_energy :: number
  last_done :: "int option"
  completed_today :: bool

type_synonym learned_data = "string \<rightharpoonup> learned"

datatype weekday = Sunday | Monday | Tuesday | Wednesday | Thursday | Friday | Saturday

record date =
  getTime :: int
  getDay :: weekday

text \<open>\<open>["sun","mon","tue","wed","thu","fri","sat"][today.getDay()]\<close>\<close>

fun dayNameOf :: "weekday \<Rightarrow> string" where
  "dayNameOf Sunday = ''sun''"
| "dayNameOf Monday = ''mon''"
| "dayNameOf Tuesday = ''tue''"
| "dayNameOf Wednesday = ''wed''"
| "dayNameOf Thursday = ''thu''"
| "dayNameOf Friday = ''fri''"
| "dayNameOf Saturday = ''sat''"

subsection \<open>Points\<close>

record points =
  base :: number
  pts :: number
  lowEnergyBonus :: bool
  multiplier :: number

definition getLowEnergyMultiplier :: "number \<Rightarrow> number" where
  "getLowEnergyMultiplier morningEnergy = or_num (LOW_ENERGY_SCALE morningEnergy) 1"

definition calcTaskPoints :: "task \<Rightarrow> number \<Rightarrow> points" where
  "calcTaskPoints t morningEnergy =
     (let base = max BASE_POINTS_MIN
                   (Math_round ((energy_required t * duration_minutes t) / 10));
          multiplier = getLowEnergyMultiplier morningEnergy;
          lowEnergyBonus = (multiplier > 1);
          pts = (if lowEnergyBonus then Math_round (base * multiplier) else base)
      in \<lparr>base = base, pts = pts, lowEnergyBonus = lowEnergyBonus,
          multiplier = multiplier\<rparr>)"

subsection \<open>Scoring\<close>

text \<open>
  \<open>urgencyOf\<close> and \<open>overduePtsOf\<close> below are the two blocks of \<open>scoreTask\<close> that compute
  \<open>urgency\<close> and \<open>overduePts\<close>.

  The object \<open>scoreTask\<close> returns: the task's own fields (\<open>...task\<close>, kept as the field
  \<open>task\<close>) and the computed ones. On the blocked branch the source leaves \<open>urgency\<close>,
  \<open>criticality\<close>, \<open>energyFit\<close> and \<open>overduePts\<close> out; they are 0 here, and the only
  read of one of them, \<open>overduePts > 10\<close>, is false for \<open>undefined\<close> as for 0.
\<close>

record scored =
  task :: task
  score :: number
  urgency :: number
  criticality :: number
  energyFit :: number
  overduePts :: number
  effectiveDuration :: number
  effectiveEnergy :: number
  blocked :: bool

definition urgencyOf :: "int option \<Rightarrow> date \<Rightarrow> number" where
  "urgencyOf dl today =
     (case dl of
        None \<Rightarrow> 0
      | Some d \<Rightarrow>
          (let daysLeft = Math_ceil (of_int (d - getTime today) / 86400000)
           in if daysLeft \<le> 0 then 30
              else if daysLeft \<le> 1 then 28
              else if daysLeft \<le> 3 then 22
              else if daysLeft \<le> 7 then 16
              else if daysLeft \<le> 14 then 10
              else if daysLeft \<le> 30 then 5
              else 1))"

definition overduePtsOf :: "learned option \<Rightarrow> string \<Rightarrow> date \<Rightarrow> number" where
  "overduePtsOf l freq today =
     (case (case l of None \<Rightarrow> None | Some r \<Rightarrow> last_done r) of
        None \<Rightarrow> 0
      | Some ld \<Rightarrow>
          if freq = [] then 0
          else (case FREQ_DAYS freq of
                  None \<Rightarrow> 0
                | Some expected \<Rightarrow>
                    if expected = 0 then 0
                    else (let daysSince = of_int (getTime today - ld) / 86400000
                          in if daysSince > expected
                             then min 15 (((daysSince - expected) / expected) * 15)
                             else 0)))"

definition scoreTask :: "task \<Rightarrow> morning \<Rightarrow> learned_data \<Rightarrow> date \<Rightarrow> scored option" where
  "scoreTask t morningData learnedData today =
     (let sleepScore = or_num (SLEEP_SCORES (sleep morningData)) 5;
          learned = learnedData (task_id t);
          effectiveDuration = or_num (map_option avg_duration learned) (duration_minutes t);
          effectiveEnergy = or_num (map_option avg_energy learned) (energy_required t);
          urgency = urgencyOf (deadline t) today;
          criticality = (if mandatory t then 25 else if critical t then 15 else 0);
          sleepMultiplier = 1 + (5 - sleepScore) * (1 / 10);
          energyDiff = \<bar>energy morningData - effectiveEnergy\<bar>;
          energyFit = max 0 (20 - energyDiff * (5 / 2)) * sleepMultiplier;
          overduePts = overduePtsOf learned (frequency t) today;
          dayName = dayNameOf (getDay today)
      in if days_available t \<noteq> [] \<and> dayName \<notin> set (days_available t) then None
         else if blockers t \<noteq> [] \<and>
                 list_ex (\<lambda>b. \<not> (case learnedData b of None \<Rightarrow> False
                                                      | Some r \<Rightarrow> completed_today r))
                   (blockers t)
         then Some \<lparr>task = t, score = 0, urgency = 0, criticality = 0, energyFit = 0,
                     overduePts = 0, effectiveDuration = effectiveDuration,
                     effectiveEnergy = effectiveEnergy, blocked = True\<rparr>
         else Some \<lparr>task = t, score = urgency + criticality + energyFit + overduePts,
                     urgency = urgency, criticality = criticality, energyFit = energyFit,
                     overduePts = overduePts, effectiveDuration = effectiveDuration,
                     effectiveEnergy = effectiveEnergy, blocked = False\<rparr>)"

subsection \<open>Variant selection\<close>

definition pickVariant :: "task \<Rightarrow> number \<Rightarrow> string \<Rightarrow> number \<Rightarrow> bool \<Rightarrow> variant option" where
  "pickVariant t energyNow sleepNow timeRemaining timePressure =
     (if variants t = [] then None
      else
        (let sleepScore = or_num (SLEEP_SCORES sleepNow) 5;
             effectiveEnergy = (energyNow + sleepScore / 2) / (3 / 2);
             sorted = sort_key v_duration_minutes (variants t)
         in if timePressure then
              (let fits = filter (\<lambda>v. v_duration_minutes v \<le> timeRemaining) sorted
               in Some (if fits \<noteq> [] then hd fits else hd sorted))
            else
              (let fitting = filter (\<lambda>v. v_duration_minutes v \<le> timeRemaining) sorted
               in if fitting = [] then Some (hd sorted)
                  else if effectiveEnergy < 7 / 2 then Some (hd fitting)
                  else Some (foldl
                         (\<lambda>best v.
                            if \<bar>v_energy_required v - effectiveEnergy\<bar>
                                 < \<bar>v_energy_required best - effectiveEnergy\<bar>
                            then v else best)
                         (hd fitting) fitting))))"

subsection \<open>The day plan\<close>

text \<open>
  An alert is \<open>{type, message}\<close>. The message is a template literal; the model keeps
  which template it is and the numbers interpolated into it, not the rendered text:
  \<^item> \<open>TimeTight\<close>: "Time is tight -- switching critical tasks to their shorter variants
    to fit your day."
  \<^item> \<open>CriticalShort h r m\<close>: "Critical tasks need \<open>h\<close>h even at shortest variants, but
    only \<open>r\<close>h remain. You're \<open>m\<close>min short -- consider deferring a task."
  \<^item> \<open>OverduePromoted\<close>: "Overdue tasks auto-promoted."
  \<^item> \<open>LowEnergyDetected\<close>: "Low energy detected -- variants scaled down. Low-energy
    bonus x1.5 pts active today!"
\<close>

datatype message = TimeTight | CriticalShort number number number | OverduePromoted | LowEnergyDetected

record alert =
  type :: string
  message :: message

text \<open>
  An entry of the plan: the scored task (\<open>...task\<close>) and the scheduling fields. The
  mandatory pass sets \<open>pinned\<close> and no \<open>compressed\<close>, the other passes \<open>compressed\<close> and
  no \<open>pinned\<close>; the absent flag is \<open>False\<close>.
\<close>

record plan_item =
  item :: scored
  scheduledDuration :: number
  displayName :: string
  variant :: "variant option"
  pinned :: bool
  compressed :: bool

text \<open>\<open>variant ? variant.duration_minutes : task.effectiveDuration\<close>\<close>

definition durationOf :: "scored \<Rightarrow> variant option \<Rightarrow> number" where
  "durationOf t v = (case v of Some x \<Rightarrow> v_duration_minutes x | None \<Rightarrow> effectiveDuration t)"

text \<open>The separator of the display name, an em dash between two spaces, in UTF-8.\<close>

definition dash :: string where
  "dash = [CHR '' '', CHR 0xE2, CHR 0x80, CHR 0x94, CHR '' '']"

definition displayNameOf :: "scored \<Rightarrow> variant option \<Rightarrow> string" where
  "displayNameOf t v =
     (case v of Some x \<Rightarrow> name (task t) @ dash @ v_name x | None \<Rightarrow> name (task t))"

text \<open>
  The three loops of \<open>buildDayPlan\<close>, each over one tier, threading the mutable pair
  \<open>(plan, minutesUsed)\<close>.
\<close>

type_synonym plan_state = "plan_item list \<times> number"

fun mandatoryLoop :: "morning \<Rightarrow> number \<Rightarrow> scored list \<Rightarrow> plan_state \<Rightarrow> plan_state" where
  "mandatoryLoop md availableMinutes [] st = st"
| "mandatoryLoop md availableMinutes (t # ts) (plan, minutesUsed) =
     (let v = pickVariant (task t) (energy md) (sleep md)
                (availableMinutes - minutesUsed) False;
          duration = durationOf t v
      in mandatoryLoop md availableMinutes ts
           (plan @ [\<lparr>item = t, scheduledDuration = duration,
                      displayName = displayNameOf t v, variant = v,
                      pinned = True, compressed = False\<rparr>],
            minutesUsed + duration))"

fun criticalLoop ::
  "morning \<Rightarrow> number \<Rightarrow> bool \<Rightarrow> scored list \<Rightarrow> plan_state \<Rightarrow> plan_state" where
  "criticalLoop md availableMinutes timePressure [] st = st"
| "criticalLoop md availableMinutes timePressure (t # ts) (plan, minutesUsed) =
     (let v = pickVariant (task t) (energy md) (sleep md)
                (availableMinutes - minutesUsed) timePressure;
          duration = durationOf t v
      in if minutesUsed + duration \<le> availableMinutes + 15
         then criticalLoop md availableMinutes timePressure ts
                (plan @ [\<lparr>item = t, scheduledDuration = duration,
                           displayName = displayNameOf t v, variant = v,
                           pinned = False, compressed = (timePressure \<and> v \<noteq> None)\<rparr>],
                 minutesUsed + duration)
         else criticalLoop md availableMinutes timePressure ts (plan, minutesUsed))"

fun normalLoop :: "morning \<Rightarrow> number \<Rightarrow> scored list \<Rightarrow> plan_state \<Rightarrow> plan_state" where
  "normalLoop md availableMinutes [] st = st"
| "normalLoop md availableMinutes (t # ts) (plan, minutesUsed) =
     (if minutesUsed \<ge> availableMinutes then (plan, minutesUsed)
      else
        (let normalPressure = (minutesUsed / availableMinutes > 9 / 10);
             v = pickVariant (task t) (energy md) (sleep md)
                   (availableMinutes - minutesUsed) normalPressure;
             duration = durationOf t v
         in if minutesUsed + duration \<le> availableMinutes
            then normalLoop md availableMinutes ts
                   (plan @ [\<lparr>item = t, scheduledDuration = duration,
                              displayName = displayNameOf t v, variant = v,
                              pinned = False, compressed = (normalPressure \<and> v \<noteq> None)\<rparr>],
                    minutesUsed + duration)
            else normalLoop md availableMinutes ts (plan, minutesUsed)))"

text \<open>The two sums of the critical tier (\<open>critical.reduce\<close>).\<close>

definition critMinsNormalOf :: "scored list \<Rightarrow> number" where
  "critMinsNormalOf cs = foldl (\<lambda>s t. s + effectiveDuration t) 0 cs"

definition critMinsCompressedOf :: "scored list \<Rightarrow> number" where
  "critMinsCompressedOf cs =
     foldl (\<lambda>s t.
        if variants (task t) = [] then s + effectiveDuration t
        else (let shortest = min_list (map v_duration_minutes (variants (task t)))
              in s + min (effectiveDuration t) shortest))
       0 cs"

text \<open>
  The contribution of one critical task to the compressed total, in the words of the
  specification: the smaller of its effective duration and its shortest variant's
  duration (the effective duration alone when it has no variants). It is compared with
  \<open>critMinsCompressedOf\<close> below (\<open>critMinsCompressedOf_sum\<close>).
\<close>

definition compressedDuration :: "scored \<Rightarrow> number" where
  "compressedDuration t =
     (if variants (task t) = [] then effectiveDuration t
      else min (effectiveDuration t) (Min (set (map v_duration_minutes (variants (task t))))))"

record day_plan =
  plan :: "plan_item list"
  alerts :: "alert list"
  minutesUsed :: number
  availableMinutes :: number
  blocked_tasks :: "task list"

text \<open>
  The constants \<open>scored\<close>, \<open>mandatory\<close>, \<open>critical\<close> and \<open>normal\<close> of \<open>buildDayPlan\<close>.
  The tiers are sorted with the comparator \<open>(a, b) => b.score - a.score\<close>: descending by
  score and stable, which is \<open>sort_key\<close> on the negated score.
\<close>

definition scoredTasks :: "task list \<Rightarrow> morning \<Rightarrow> learned_data \<Rightarrow> date \<Rightarrow> scored list" where
  "scoredTasks tasks morningData learnedData today =
     filter (\<lambda>t. \<not> blocked t)
       (List.map_filter (\<lambda>t. scoreTask t morningData learnedData today) tasks)"

definition mandatoryTasks :: "scored list \<Rightarrow> scored list" where
  "mandatoryTasks sc = sort_key (\<lambda>t. - score t) (filter (\<lambda>t. mandatory (task t)) sc)"

definition criticalTasks :: "scored list \<Rightarrow> scored list" where
  "criticalTasks sc =
     sort_key (\<lambda>t. - score t) (filter (\<lambda>t. \<not> mandatory (task t) \<and> critical (task t)) sc)"

definition normalTasks :: "scored list \<Rightarrow> scored list" where
  "normalTasks sc =
     sort_key (\<lambda>t. - score t) (filter (\<lambda>t. \<not> mandatory (task t) \<and> \<not> critical (task t)) sc)"

text \<open>
  The result's field \<open>blocked\<close> is \<open>blocked_tasks\<close> here (\<open>blocked\<close> is the flag of a
  scored task).
\<close>

definition buildDayPlan :: "task list \<Rightarrow> morning \<Rightarrow> learned_data \<Rightarrow> date \<Rightarrow> day_plan" where
  "buildDayPlan tasks morningData learnedData today =
     (let availableMinutes = hours morningData * 60;
          sc = scoredTasks tasks morningData learnedData today;
          blockedTasks = filter
                           (\<lambda>t. case scoreTask t morningData learnedData today of
                                   None \<Rightarrow> False | Some s \<Rightarrow> blocked s)
                           tasks;
          st1 = mandatoryLoop morningData availableMinutes (mandatoryTasks sc) ([], 0);
          remainingForCritical = availableMinutes - snd st1;
          critMinsNormal = critMinsNormalOf (criticalTasks sc);
          critMinsCompressed = critMinsCompressedOf (criticalTasks sc);
          timePressure = (critMinsNormal > remainingForCritical);
          canFitCompressed = (critMinsCompressed \<le> remainingForCritical);
          alerts1 =
            (if timePressure then
               (if canFitCompressed then [\<lparr>type = ''warning'', message = TimeTight\<rparr>]
                else
                  (let shortfall = Math_round (critMinsCompressed - remainingForCritical)
                   in [\<lparr>type = ''error'',
                        message = CriticalShort
                          (Math_round (critMinsCompressed / 60 * 10) / 10)
                          (Math_round (remainingForCritical / 60 * 10) / 10)
                          shortfall\<rparr>]))
             else []);
          st2 = criticalLoop morningData availableMinutes timePressure (criticalTasks sc) st1;
          st3 = normalLoop morningData availableMinutes (normalTasks sc) st2;
          alerts2 =
            (if filter (\<lambda>t. overduePts t > 10) sc \<noteq> []
             then alerts1 @ [\<lparr>type = ''warning'', message = OverduePromoted\<rparr>]
             else alerts1);
          alerts3 =
            (if energy morningData \<le> 3 \<or> sleep morningData = ''terrible''
             then alerts2 @ [\<lparr>type = ''info'', message = LowEnergyDetected\<rparr>]
             else alerts2)
      in \<lparr>plan = fst st3, alerts = alerts3, minutesUsed = snd st3,
          availableMinutes = availableMinutes, blocked_tasks = blockedTasks\<rparr>)"

subsection \<open>Learning from reviews\<close>

text \<open>
  The body of the loop of \<open>submitReview\<close> for one completed task id; \<open>prevOf\<close> is its
  constant \<open>prev\<close>, the stored record or the initial one. \<open>actualTimes[id]\<close>
  and \<open>actualEnergy[id]\<close> enter as the results of \<open>parseInt\<close> and \<open>parseFloat\<close> (\<open>None\<close>
  for \<open>NaN\<close>); \<open>completedDate\<close> is the date the source reads from the clock.

  The count and the average duration are integers, on which the operations of doubles
  are exact. The average energy is
  \<open>Math.round(((prev.avg_energy||0) * (count-1) + actualEng) / count * 10) / 10\<close>,
  evaluated left to right in doubles.
\<close>

definition prevOf :: "learned_data \<Rightarrow> string \<Rightarrow> learned" where
  "prevOf newLearned i =
     (case newLearned i of
        Some r \<Rightarrow> r
      | None \<Rightarrow> \<lparr>count = 0, avg_duration = 0, avg_energy = 0,
                  last_done = None, completed_today = False\<rparr>)"

definition applyReview ::
  "learned_data \<Rightarrow> string \<Rightarrow> number option \<Rightarrow> number option \<Rightarrow> int \<Rightarrow> learned" where
  "applyReview newLearned i parsedMin parsedEng completedDate =
     (let prev = prevOf newLearned i;
          actualMin = or_null parsedMin;
          actualEng = or_null parsedEng;
          cnt = count prev + 1
      in prev\<lparr>count := cnt,
              last_done := Some completedDate,
              completed_today := True,
              avg_duration :=
                (case actualMin of
                   Some a \<Rightarrow> Math_round (((avg_duration prev * (cnt - 1)) + a) / cnt)
                 | None \<Rightarrow> avg_duration prev),
              avg_energy :=
                (case actualEng of
                   Some a \<Rightarrow>
                     double_div
                       (Math_round
                          (double_mul
                             (double_div
                                (double_add
                                   (double_mul (or_num (Some (avg_energy prev)) 0) (cnt - 1)) a)
                                cnt)
                             10))
                       10
                 | None \<Rightarrow> avg_energy prev)\<rparr>)"

text \<open>
  The average energy in the words of the specification: the incremental mean, rounded
  to one decimal, in exact arithmetic. It is compared with \<open>applyReview\<close> below.
\<close>

definition specAvgEnergy :: "number \<Rightarrow> number \<Rightarrow> number \<Rightarrow> number" where
  "specAvgEnergy avgEnergy cnt actualEnergy =
     Math_round ((avgEnergy * cnt + actualEnergy) / (cnt + 1) * 10) / 10"

text \<open>
  The loop itself, over \<open>Object.keys(completedTasks)\<close>; \<open>actualTimes\<close> and \<open>actualEnergy\<close>
  map an id to its parsed entry. Awarding the feedback points, saving the result and
  the toast are effects outside the learned data and are left out.
\<close>

fun submitReview ::
  "learned_data \<Rightarrow> string list \<Rightarrow> (string \<rightharpoonup> number) \<Rightarrow> (string \<rightharpoonup> number) \<Rightarrow> int \<Rightarrow> learned_data"
  where
  "submitReview newLearned [] actualTimes actualEnergy now = newLearned"
| "submitReview newLearned (i # ids) actualTimes actualEnergy now =
     submitReview
       (newLearned(i \<mapsto> applyReview newLearned i (actualTimes i) (actualEnergy i) now))
       ids actualTimes actualEnergy now"

section \<open>Example inputs\<close>

text \<open>Concrete tasks, contexts and histories on which the theorems below are instantiated.\<close>

definition ex_task :: task where
  "ex_task = \<lparr>task_id = ''a'', name = ''A'', mandatory = True, critical = False,
     energy_required = 5, duration_minutes = 30, frequency = ''daily'', deadline = None,
     days_available = [], variants = [], blockers = []\<rparr>"

definition ex_small :: task where
  "ex_small = ex_task\<lparr>energy_required := 1, duration_minutes := 1\<rparr>"

definition ex_breakfast :: task where
  "ex_breakfast = \<lparr>task_id = ''breakfast'', name = ''Breakfast'', mandatory = True,
     critical = False, energy_required = 2, duration_minutes = 20, frequency = ''daily'',
     deadline = None, days_available = [],
     variants = [\<lparr>v_name = ''Full cooked breakfast'', v_duration_minutes = 35, v_energy_required = 3\<rparr>,
                 \<lparr>v_name = ''Cereal or yogurt'', v_duration_minutes = 5, v_energy_required = 1\<rparr>,
                 \<lparr>v_name = ''Toast and eggs'', v_duration_minutes = 15, v_energy_required = 2\<rparr>],
     blockers = []\<rparr>"

definition ex_morning :: morning where
  "ex_morning = \<lparr>sleep = ''ok'', hours = 1, energy = 6\<rparr>"

definition ex_today :: date where
  "ex_today = \<lparr>getTime = 864000000, getDay = Sunday\<rparr>"

definition ex_long :: task where
  "ex_long = ex_task\<lparr>duration_minutes := 100\<rparr>"

definition ex_morning0 :: morning where
  "ex_morning0 = \<lparr>sleep = ''ok'', hours = 0, energy = 6\<rparr>"

definition ex_weekday :: task where
  "ex_weekday = ex_task\<lparr>days_available := [''mon'', ''tue'']\<rparr>"

definition ex_history :: learned_data where
  "ex_history = Map.empty(''a'' \<mapsto> applyReview Map.empty ''a'' None None 0)"

definition ex_crit :: task where
  "ex_crit = \<lparr>task_id = ''c1'', name = ''Report'', mandatory = False, critical = True,
     energy_required = 6, duration_minutes = 100, frequency = ''once'', deadline = None,
     days_available = [],
     variants = [\<lparr>v_name = ''Full'', v_duration_minutes = 100, v_energy_required = 6\<rparr>,
                 \<lparr>v_name = ''Outline only'', v_duration_minutes = 60, v_energy_required = 4\<rparr>],
     blockers = []\<rparr>"

definition ex_crit2 :: task where
  "ex_crit2 = ex_crit\<lparr>task_id := ''c2'', name := ''Slides''\<rparr>"

definition ex_morning150 :: morning where
  "ex_morning150 = \<lparr>sleep = ''ok'', hours = 5 / 2, energy = 6\<rparr>"

definition ex_morning_low :: morning where
  "ex_morning_low = \<lparr>sleep = ''terrible'', hours = 1, energy = 2\<rparr>"

text \<open>
  A learned record with a given count and average energy, and the store after seven
  reviews of task \<open>a\<close> with energies 1, 1, 1, 1, 1, 1, 4: count 7 and, as average energy,
  the double nearest to 1.4.
\<close>

definition ex_rec :: "number \<Rightarrow> number \<Rightarrow> learned" where
  "ex_rec c e = \<lparr>count = c, avg_duration = 0, avg_energy = e,
     last_done = Some 0, completed_today = True\<rparr>"

definition ex_energy7 :: learned_data where
  "ex_energy7 = Map.empty(''a'' \<mapsto> ex_rec 7 (3152519739159347 / 2251799813685248))"

section \<open>Properties\<close>

subsection \<open>Rounding\<close>

lemma floor_rat_numeral_div:
  "\<lfloor>(numeral a :: rat) / numeral b\<rfloor> = numeral a div numeral b"
  using floor_divide_of_int_eq [where ?'a = rat, of "numeral a" "numeral b"] by simp

lemma floor_rat_neg_numeral_div:
  "\<lfloor>- ((numeral a :: rat) / numeral b)\<rfloor> = - numeral a div numeral b"
  using floor_divide_of_int_eq [where ?'a = rat, of "- numeral a" "numeral b"] by simp

lemmas Math_eval = Math_round_def Math_ceil_def ceiling_def
  floor_rat_numeral_div floor_rat_neg_numeral_div

lemma Math_round_mono: "x \<le> y \<Longrightarrow> Math_round x \<le> Math_round y"
  by (simp add: Math_round_def floor_mono)

lemma Math_round_ge1:
  assumes "1 \<le> x" shows "1 \<le> Math_round x"
proof -
  have "Math_round 1 \<le> Math_round x" using assms by (rule Math_round_mono)
  moreover have "Math_round 1 = 1" by (simp add: Math_eval)
  ultimately show ?thesis by simp
qed

subsection \<open>Double arithmetic\<close>

lemma bits_bounds: "0 < n \<Longrightarrow> 2 ^ (bits n - 1) \<le> n \<and> n < 2 ^ bits n"
proof (induction n rule: bits.induct)
  case (1 n)
  show ?case
  proof (cases "n div 2 = 0")
    case True
    then have "n = 1" using "1.prems" by presburger
    then show ?thesis by (simp add: bits.simps)
  next
    case False
    then have h: "0 < n div 2" by simp
    from "1.IH" [OF _ h] "1.prems"
    have ih: "2 ^ (bits (n div 2) - 1) \<le> n div 2" "n div 2 < 2 ^ bits (n div 2)" by auto
    have b: "bits n = Suc (bits (n div 2))" using "1.prems" by (subst bits.simps) simp
    have pos: "0 < bits (n div 2)" using h by (subst bits.simps) simp
    have "2 ^ bits (n div 2) \<le> n"
    proof -
      have "2 ^ bits (n div 2) = 2 * 2 ^ (bits (n div 2) - 1)"
        using pos by (cases "bits (n div 2)") simp_all
      also have "\<dots> \<le> 2 * (n div 2)" using ih(1) by simp
      also have "\<dots> \<le> n" by presburger
      finally show ?thesis .
    qed
    moreover have "n < 2 * 2 ^ bits (n div 2)" using ih(2) by presburger
    ultimately show ?thesis by (simp add: b)
  qed
qed

lemma roundTiesToEven_error: "\<bar>of_int (roundTiesToEven q) - q\<bar> \<le> 1 / 2"
proof -
  define r where "r = q - of_int \<lfloor>q\<rfloor>"
  have r: "0 \<le> r" "r < 1" unfolding r_def by linarith+
  have q: "q = of_int \<lfloor>q\<rfloor> + r" by (simp add: r_def)
  have "of_int (roundTiesToEven q) - q = - r \<or> of_int (roundTiesToEven q) - q = 1 - r"
    by (simp add: roundTiesToEven_def Let_def r_def)
  moreover have "of_int (roundTiesToEven q) - q = - r \<Longrightarrow> r \<le> 1 / 2"
    by (auto simp: roundTiesToEven_def Let_def r_def split: if_splits)
  moreover have "of_int (roundTiesToEven q) - q = 1 - r \<Longrightarrow> 1 / 2 \<le> r"
    by (auto simp: roundTiesToEven_def Let_def r_def split: if_splits)
  ultimately show ?thesis using r by auto
qed

lemma ilog2_bounds:
  assumes "x \<noteq> 0"
  shows "2 powi ilog2 x \<le> \<bar>x\<bar> \<and> \<bar>x\<bar> < 2 powi (ilog2 x + 1)"
proof (cases "1 \<le> \<bar>x\<bar>")
  case True
  define n where "n = nat \<lfloor>\<bar>x\<bar>\<rfloor>"
  have n1: "0 < n" using True by (simp add: n_def)
  have nx: "of_nat n \<le> \<bar>x\<bar>" "\<bar>x\<bar> < of_nat n + 1"
    unfolding n_def using True by (simp_all add: of_nat_nat) linarith+
  from bits_bounds [OF n1] have b: "2 ^ (bits n - 1) \<le> n" "n < 2 ^ bits n" by auto
  have bp: "0 < bits n" using n1 by (subst bits.simps) simp
  have e: "ilog2 x = int (bits n - 1)" using True bp by (simp add: ilog2_def n_def)
  have q1: "(2::rat) ^ (bits n - 1) \<le> of_nat n"
  proof -
    have "(of_nat (2 ^ (bits n - 1)) :: rat) \<le> of_nat n"
      using b(1) by (rule iffD2 [OF of_nat_le_iff])
    then show ?thesis by simp
  qed
  have e1: "2 powi ilog2 x = (2::rat) ^ (bits n - 1)" by (simp add: e)
  have lo: "2 powi ilog2 x \<le> \<bar>x\<bar>"
    unfolding e1 using q1 nx(1) by (rule order_trans)
  have q2: "of_nat n + 1 \<le> (2::rat) ^ bits n"
  proof -
    have "Suc n \<le> 2 ^ bits n" using b(2) by simp
    then have "(of_nat (Suc n) :: rat) \<le> of_nat (2 ^ bits n)"
      by (rule iffD2 [OF of_nat_le_iff])
    then show ?thesis by simp
  qed
  have "ilog2 x + 1 = int (bits n)" using bp by (simp add: e)
  then have e2: "2 powi (ilog2 x + 1) = (2::rat) ^ bits n" by simp
  have hi: "\<bar>x\<bar> < 2 powi (ilog2 x + 1)"
    unfolding e2 using nx(2) q2 by (rule less_le_trans)
  show ?thesis using lo hi by simp
next
  case False
  define y where "y = 1 / \<bar>x\<bar>"
  have xp: "0 < \<bar>x\<bar>" using assms by simp
  have y1: "1 < y" using False xp by (simp add: y_def)
  define m where "m = nat (\<lceil>y\<rceil> - 1)"
  have c2: "2 \<le> \<lceil>y\<rceil>" using y1 by linarith
  have m1: "0 < m" using c2 by (simp add: m_def)
  have my: "of_nat m < y" "y \<le> of_nat m + 1"
    unfolding m_def using c2 by (simp_all add: of_nat_nat) linarith+
  from bits_bounds [OF m1] have b: "2 ^ (bits m - 1) \<le> m" "m < 2 ^ bits m" by auto
  have bp: "0 < bits m" using m1 by (subst bits.simps) simp
  have e: "ilog2 x = - int (bits m)" using False by (simp add: ilog2_def m_def y_def)
  have p1: "(2::rat) ^ (bits m - 1) \<le> of_nat m"
  proof -
    have "(of_nat (2 ^ (bits m - 1)) :: rat) \<le> of_nat m"
      using b(1) by (rule iffD2 [OF of_nat_le_iff])
    then show ?thesis by simp
  qed
  have p2: "of_nat m + 1 \<le> (2::rat) ^ bits m"
  proof -
    have "Suc m \<le> 2 ^ bits m" using b(2) by simp
    then have "(of_nat (Suc m) :: rat) \<le> of_nat (2 ^ bits m)"
      by (rule iffD2 [OF of_nat_le_iff])
    then show ?thesis by simp
  qed
  have ylo: "(2::rat) ^ (bits m - 1) < y" using p1 my(1) by (rule le_less_trans)
  have yhi: "y \<le> (2::rat) ^ bits m" using my(2) p2 by (rule order_trans)
  have x: "1 / y = \<bar>x\<bar>" by (simp add: y_def)
  have e1: "2 powi ilog2 x = 1 / (2::rat) ^ bits m"
    by (simp add: e power_int_minus inverse_eq_divide)
  have "ilog2 x + 1 = - int (bits m - 1)" using bp by (simp add: e)
  then have e2: "2 powi (ilog2 x + 1) = 1 / (2::rat) ^ (bits m - 1)"
    by (simp add: power_int_minus inverse_eq_divide)
  have "1 / (2::rat) ^ bits m \<le> 1 / y"
    using yhi y1 by (intro divide_left_mono) simp_all
  then have lo: "2 powi ilog2 x \<le> \<bar>x\<bar>" unfolding e1 x .
  have "1 / y < 1 / (2::rat) ^ (bits m - 1)"
    using ylo y1 by (intro divide_strict_left_mono mult_pos_pos) simp_all
  then have hi: "\<bar>x\<bar> < 2 powi (ilog2 x + 1)" unfolding e2 x .
  show ?thesis using lo hi by simp
qed

text \<open>
  \<open>fl x\<close> lies on the grid of the doubles of the binade of \<open>x\<close> and is within half a
  unit in the last place of \<open>x\<close>.
\<close>

lemma fl_nearest:
  assumes "x \<noteq> 0"
  shows "\<bar>fl x - x\<bar> \<le> 2 powi (ilog2 x - 53)"
    and "\<exists>k. fl x = of_int k * 2 powi (ilog2 x - 52)"
proof -
  define u :: rat where "u = 2 powi (ilog2 x - 52)"
  have up: "0 < u" by (simp add: u_def)
  have f: "fl x = of_int (roundTiesToEven (x / u)) * u"
    using assms by (simp add: fl_def Let_def u_def)
  have "fl x - x = (of_int (roundTiesToEven (x / u)) - x / u) * u"
    using up by (simp add: f field_simps)
  then have "\<bar>fl x - x\<bar> = \<bar>of_int (roundTiesToEven (x / u)) - x / u\<bar> * u"
    using up by (simp add: abs_mult)
  also have "\<dots> \<le> (1 / 2) * u"
    using roundTiesToEven_error [of "x / u"] up by (intro mult_right_mono) simp_all
  also have "(1 / 2) * u = 2 powi (ilog2 x - 53)"
  proof -
    have "(2::rat) powi ((ilog2 x - 53) + 1) = 2 powi (ilog2 x - 53) * 2"
      by (rule power_int_add_1) simp
    then have "u = 2 powi (ilog2 x - 53) * 2"
      unfolding u_def by (simp add: algebra_simps)
    then show ?thesis by simp
  qed
  finally show "\<bar>fl x - x\<bar> \<le> 2 powi (ilog2 x - 53)" .
  show "\<exists>k. fl x = of_int k * 2 powi (ilog2 x - 52)"
    using f unfolding u_def by blast
qed

text \<open>The doubles nearest to 1.4, 1.3 and 1.9.\<close>

lemma fl_vals:
  "fl (7 / 5) = 3152519739159347 / 2251799813685248"
  "fl (13 / 10) = 5854679515581645 / 4503599627370496"
  "fl (19 / 10) = 4278419646001971 / 2251799813685248"
  by code_simp+

subsection \<open>Points\<close>

lemma getLowEnergyMultiplier_cases:
  "getLowEnergyMultiplier e =
     (if e = 1 then 3 else if e = 2 then 5 / 2 else if e = 3 then 2
      else if e = 4 then 3 / 2 else 1)"
  by (simp add: getLowEnergyMultiplier_def LOW_ENERGY_SCALE_def)

lemma getLowEnergyMultiplier_ge1: "1 \<le> getLowEnergyMultiplier e"
  by (simp add: getLowEnergyMultiplier_cases)

lemma pts_ge1: "1 \<le> pts (calcTaskPoints t e)"
proof -
  let ?b = "max 1 (Math_round (energy_required t * duration_minutes t / 10))"
  have b: "1 \<le> ?b" by simp
  have "1 * 1 \<le> ?b * getLowEnergyMultiplier e"
    using b getLowEnergyMultiplier_ge1 [of e] by (intro mult_mono) simp_all
  then have "1 \<le> Math_round (?b * getLowEnergyMultiplier e)"
    by (intro Math_round_ge1) simp
  then show ?thesis
    by (simp add: calcTaskPoints_def Let_def BASE_POINTS_MIN_def)
qed

text \<open>
  Claim C3. For every task with \<open>energy_required \<ge> 1\<close> and \<open>duration_minutes \<ge> 1\<close> and
  every morning energy, \<open>calcTaskPoints\<close> returns
  \<open>base = max(1, round(energy_required * duration_minutes / 10))\<close>; the multiplier is
  3.0, 2.5, 2.0, 1.5 for morning energy 1, 2, 3, 4 and 1.0 for energy at least 5; the
  points are \<open>round(base * multiplier)\<close> when the multiplier exceeds 1.0 and \<open>base\<close>
  otherwise; and the points are at least 1.
\<close>

theorem calcTaskPoints_formula:
  "energy_required t \<ge> 1 \<Longrightarrow> duration_minutes t \<ge> 1 \<Longrightarrow>
   base (calcTaskPoints t e) = max 1 (Math_round (energy_required t * duration_minutes t / 10)) \<and>
   (e = 1 \<longrightarrow> multiplier (calcTaskPoints t e) = 3) \<and>
   (e = 2 \<longrightarrow> multiplier (calcTaskPoints t e) = 5 / 2) \<and>
   (e = 3 \<longrightarrow> multiplier (calcTaskPoints t e) = 2) \<and>
   (e = 4 \<longrightarrow> multiplier (calcTaskPoints t e) = 3 / 2) \<and>
   (e \<ge> 5 \<longrightarrow> multiplier (calcTaskPoints t e) = 1) \<and>
   pts (calcTaskPoints t e) =
     (if multiplier (calcTaskPoints t e) > 1
      then Math_round (base (calcTaskPoints t e) * multiplier (calcTaskPoints t e))
      else base (calcTaskPoints t e)) \<and>
   pts (calcTaskPoints t e) \<ge> 1"
proof -
  have m: "multiplier (calcTaskPoints t e) = getLowEnergyMultiplier e"
    by (simp add: calcTaskPoints_def Let_def)
  have b: "base (calcTaskPoints t e) =
      max 1 (Math_round (energy_required t * duration_minutes t / 10))"
    by (simp add: calcTaskPoints_def Let_def BASE_POINTS_MIN_def)
  have p: "pts (calcTaskPoints t e) =
     (if multiplier (calcTaskPoints t e) > 1
      then Math_round (base (calcTaskPoints t e) * multiplier (calcTaskPoints t e))
      else base (calcTaskPoints t e))"
    by (simp add: calcTaskPoints_def Let_def)
  show ?thesis
    using b p pts_ge1 [of t e] unfolding m by (simp add: getLowEnergyMultiplier_cases)
qed

text \<open>
  The scenario of the specification: energy 2, a task with \<open>energy_required = 5\<close> and
  \<open>duration_minutes = 30\<close> earns base 15, multiplier 2.5 and 38 points.
\<close>

theorem calcTaskPoints_formula_witness:
  "energy_required ex_task \<ge> 1 \<and> duration_minutes ex_task \<ge> 1 \<and>
   base (calcTaskPoints ex_task 2) = 15 \<and> multiplier (calcTaskPoints ex_task 2) = 5 / 2 \<and>
   pts (calcTaskPoints ex_task 2) = 38"
proof -
  have h1: "energy_required ex_task \<ge> 1" and h2: "duration_minutes ex_task \<ge> 1"
    by (simp_all add: ex_task_def)
  have e: "energy_required ex_task * duration_minutes ex_task / 10 = 15"
    by (simp add: ex_task_def)
  note w = calcTaskPoints_formula [OF h1 h2, of 2]
  from w have m: "multiplier (calcTaskPoints ex_task 2) = 5 / 2" by simp
  from w have b: "base (calcTaskPoints ex_task 2) = 15" by (simp add: e Math_eval)
  from w have "pts (calcTaskPoints ex_task 2) =
     (if multiplier (calcTaskPoints ex_task 2) > 1
      then Math_round (base (calcTaskPoints ex_task 2) * multiplier (calcTaskPoints ex_task 2))
      else base (calcTaskPoints ex_task 2))" by blast
  then have p: "pts (calcTaskPoints ex_task 2) = 38"
    unfolding m b by (simp add: Math_eval)
  show ?thesis using h1 h2 m b p by blast
qed

text \<open>
  Claim C9. For a fixed morning energy, \<open>calcTaskPoints\<close> is monotonically non-decreasing
  in the product \<open>energy_required * duration_minutes\<close>: a task whose product is no larger
  earns no more points.
\<close>

theorem calcTaskPoints_monotone:
  assumes "energy_required t1 * duration_minutes t1 \<le> energy_required t2 * duration_minutes t2"
  shows "pts (calcTaskPoints t1 e) \<le> pts (calcTaskPoints t2 e)"
proof -
  let ?b1 = "max 1 (Math_round (energy_required t1 * duration_minutes t1 / 10))"
  let ?b2 = "max 1 (Math_round (energy_required t2 * duration_minutes t2 / 10))"
  let ?m = "getLowEnergyMultiplier e"
  have "energy_required t1 * duration_minutes t1 / 10 \<le> energy_required t2 * duration_minutes t2 / 10"
    using assms by (simp add: divide_right_mono)
  then have b: "?b1 \<le> ?b2"
    using Math_round_mono by (auto simp: max_def intro: order_trans)
  have "?b1 * ?m \<le> ?b2 * ?m"
    using b getLowEnergyMultiplier_ge1 [of e] by (intro mult_right_mono) simp_all
  then have "Math_round (?b1 * ?m) \<le> Math_round (?b2 * ?m)"
    by (rule Math_round_mono)
  with b show ?thesis
    by (simp add: calcTaskPoints_def Let_def BASE_POINTS_MIN_def)
qed

theorem calcTaskPoints_monotone_witness:
  "energy_required ex_small * duration_minutes ex_small
     \<le> energy_required ex_task * duration_minutes ex_task \<and>
   pts (calcTaskPoints ex_small 2) \<le> pts (calcTaskPoints ex_task 2)"
proof -
  have h: "energy_required ex_small * duration_minutes ex_small
     \<le> energy_required ex_task * duration_minutes ex_task"
    by (simp add: ex_small_def ex_task_def)
  show ?thesis using h calcTaskPoints_monotone [OF h, of 2] by blast
qed

subsection \<open>Variant selection under time pressure\<close>

lemma sorted_key_hd_le:
  "sorted (map f ys) \<Longrightarrow> y \<in> set ys \<Longrightarrow> f (hd ys) \<le> f y"
  by (cases ys) auto

text \<open>
  Claim C5. For a task with a non-empty list of variants, \<open>pickVariant\<close> under time
  pressure returns a variant (it has no failing branch); when some variant's duration is
  at most \<open>timeRemaining\<close>, the one returned fits and no fitting variant is shorter; when
  none fits, no variant at all is shorter than the one returned.
\<close>

theorem pickVariant_pressure:
  assumes "variants t \<noteq> []"
  shows "\<exists>v. pickVariant t e s r True = Some v \<and> v \<in> set (variants t) \<and>
     (if \<exists>w \<in> set (variants t). v_duration_minutes w \<le> r
      then v_duration_minutes v \<le> r \<and>
           (\<forall>w \<in> set (variants t). v_duration_minutes w \<le> r
                \<longrightarrow> v_duration_minutes v \<le> v_duration_minutes w)
      else (\<forall>w \<in> set (variants t). v_duration_minutes v \<le> v_duration_minutes w))"
proof -
  define sorted_vs where "sorted_vs = sort_key v_duration_minutes (variants t)"
  define fits where "fits = filter (\<lambda>v. v_duration_minutes v \<le> r) sorted_vs"
  have srt: "sorted (map v_duration_minutes sorted_vs)"
    by (simp add: sorted_vs_def)
  have set_s: "set sorted_vs = set (variants t)"
    by (simp add: sorted_vs_def)
  have ne: "sorted_vs \<noteq> []"
    using assms set_s by (metis set_empty)
  have srt_f: "sorted (map v_duration_minutes fits)"
    unfolding fits_def using srt by (rule sorted_filter)
  have set_f: "set fits = {v \<in> set (variants t). v_duration_minutes v \<le> r}"
    by (auto simp: fits_def set_s)
  have pv: "pickVariant t e s r True = Some (if fits \<noteq> [] then hd fits else hd sorted_vs)"
    using assms by (simp add: pickVariant_def Let_def fits_def sorted_vs_def)
  show ?thesis
  proof (cases "fits = []")
    case True
    then have none: "\<not> (\<exists>w \<in> set (variants t). v_duration_minutes w \<le> r)"
      using set_f by auto
    have "hd sorted_vs \<in> set (variants t)"
      using ne set_s hd_in_set by blast
    moreover have "\<forall>w \<in> set (variants t). v_duration_minutes (hd sorted_vs) \<le> v_duration_minutes w"
      using sorted_key_hd_le [OF srt] set_s by blast
    ultimately show ?thesis using pv True none by simp
  next
    case False
    then have hdf: "hd fits \<in> set fits" by simp
    then have some: "\<exists>w \<in> set (variants t). v_duration_minutes w \<le> r"
      using set_f by auto
    have "\<forall>w \<in> set fits. v_duration_minutes (hd fits) \<le> v_duration_minutes w"
      using sorted_key_hd_le [OF srt_f] by blast
    then have "\<forall>w \<in> set (variants t). v_duration_minutes w \<le> r
                \<longrightarrow> v_duration_minutes (hd fits) \<le> v_duration_minutes w"
      using set_f by simp
    moreover have "hd fits \<in> set (variants t)" "v_duration_minutes (hd fits) \<le> r"
      using hdf set_f by auto
    ultimately show ?thesis using pv False some by simp
  qed
qed

lemma pick_breakfast:
  "pickVariant ex_breakfast 6 ''ok'' 20 True =
     Some \<lparr>v_name = ''Cereal or yogurt'', v_duration_minutes = 5, v_energy_required = 1\<rparr>"
  by (simp add: pickVariant_def ex_breakfast_def Let_def)

lemma pick_breakfast_none_fits:
  "pickVariant ex_breakfast 6 ''ok'' 3 True =
     Some \<lparr>v_name = ''Cereal or yogurt'', v_duration_minutes = 5, v_energy_required = 1\<rparr>"
  by (simp add: pickVariant_def ex_breakfast_def Let_def)

theorem pickVariant_pressure_witness:
  "variants ex_breakfast \<noteq> [] \<and>
   (\<exists>v. pickVariant ex_breakfast 6 ''ok'' 20 True = Some v \<and> v_duration_minutes v = 5) \<and>
   (\<exists>v. pickVariant ex_breakfast 6 ''ok'' 3 True = Some v \<and> v_duration_minutes v = 5)"
proof -
  have h: "variants ex_breakfast \<noteq> []" by (simp add: ex_breakfast_def)
  from pickVariant_pressure [OF h, of 6 "''ok''" 20] obtain v where
    "pickVariant ex_breakfast 6 ''ok'' 20 True = Some v" by blast
  then have a: "\<exists>v. pickVariant ex_breakfast 6 ''ok'' 20 True = Some v \<and> v_duration_minutes v = 5"
    by (auto simp: pick_breakfast)
  have b: "\<exists>v. pickVariant ex_breakfast 6 ''ok'' 3 True = Some v \<and> v_duration_minutes v = 5"
    by (simp add: pick_breakfast_none_fits)
  show ?thesis using h a b by blast
qed

subsection \<open>Learning\<close>

lemma applyReview_twice:
  assumes "ld i = None"
  shows "count (applyReview (ld(i \<mapsto> applyReview ld i (Some 10) pe d)) i (Some 20) pe' d') = 2"
    and "avg_duration (applyReview (ld(i \<mapsto> applyReview ld i (Some 10) pe d)) i (Some 20) pe' d') = 15"
proof -
  define r where "r = applyReview ld i (Some 10) pe d"
  have one: "count r = 1" "avg_duration r = 10"
    using assms by (simp_all add: r_def applyReview_def prevOf_def Let_def Math_eval)
  have p2: "prevOf (ld(i \<mapsto> r)) i = r"
    by (simp add: prevOf_def)
  show "count (applyReview (ld(i \<mapsto> applyReview ld i (Some 10) pe d)) i (Some 20) pe' d') = 2"
    unfolding r_def [symmetric] by (simp add: applyReview_def Let_def p2 one)
  show "avg_duration (applyReview (ld(i \<mapsto> applyReview ld i (Some 10) pe d)) i (Some 20) pe' d') = 15"
    unfolding r_def [symmetric] by (simp add: applyReview_def Let_def p2 one Math_eval)
qed

text \<open>The seven reviews that lead to \<open>ex_energy7\<close>, and the eighth.\<close>

lemma ex_energy_first:
  "applyReview Map.empty ''a'' None (Some 1) 0 = ex_rec 1 1"
  by code_simp

lemma ex_energy_ones:
  "applyReview (Map.empty(''a'' \<mapsto> ex_rec 1 1)) ''a'' None (Some 1) 0 = ex_rec 2 1"
  "applyReview (Map.empty(''a'' \<mapsto> ex_rec 2 1)) ''a'' None (Some 1) 0 = ex_rec 3 1"
  "applyReview (Map.empty(''a'' \<mapsto> ex_rec 3 1)) ''a'' None (Some 1) 0 = ex_rec 4 1"
  "applyReview (Map.empty(''a'' \<mapsto> ex_rec 4 1)) ''a'' None (Some 1) 0 = ex_rec 5 1"
  "applyReview (Map.empty(''a'' \<mapsto> ex_rec 5 1)) ''a'' None (Some 1) 0 = ex_rec 6 1"
  by code_simp+

lemma ex_energy_four:
  "Map.empty(''a'' \<mapsto> applyReview (Map.empty(''a'' \<mapsto> ex_rec 6 1)) ''a'' None (Some 4) 0)
     = ex_energy7"
  unfolding ex_energy7_def by (rule arg_cong [where f = "\<lambda>r. Map.empty(''a'' \<mapsto> r)"]) code_simp

lemma ex_energy7_1:
  "avg_energy (applyReview ex_energy7 ''a'' None (Some 1) 0)
     = 5854679515581645 / 4503599627370496"
  by code_simp

lemma ex_energy7_5:
  "avg_energy (applyReview ex_energy7 ''a'' None (Some 5) 0)
     = 4278419646001971 / 2251799813685248"
  by code_simp

lemma spec_vals:
  "specAvgEnergy (7 / 5) 7 1 = 7 / 5"
  "specAvgEnergy (3152519739159347 / 2251799813685248) 7 5 = 9 / 5"
  by code_simp+

lemma ex_energy7_prev:
  "avg_energy (prevOf ex_energy7 ''a'') = 3152519739159347 / 2251799813685248"
  "count (prevOf ex_energy7 ''a'') = 7"
  by (simp_all add: prevOf_def ex_energy7_def ex_rec_def)

text \<open>
  Claim C7 as stated gives the new average energy as the formula
  \<open>round((avgEnergy * count + actual) / (count + 1) * 10) / 10\<close>. The code evaluates it in
  doubles, and the result can differ by a tenth. After reviews with energies
  1, 1, 1, 1, 1, 1, 4 the stored average is the double nearest to 1.4, which is below
  1.4. A further review with energy 5 stores 1.9 where the formula on the stored
  average gives 1.8; a further review with energy 1 stores 1.3 where the formula on
  the one-decimal value 1.4 gives 1.4.
\<close>

theorem applyReview_energy_counterexample:
  "Map.empty(''a'' \<mapsto> applyReview (Map.empty(''a'' \<mapsto> ex_rec 6 1)) ''a'' None (Some 4) 0)
     = ex_energy7 \<and>
   Math_round (avg_energy (applyReview ex_energy7 ''a'' None (Some 5) 0) * 10) = 19 \<and>
   Math_round (specAvgEnergy (avg_energy (prevOf ex_energy7 ''a''))
                 (count (prevOf ex_energy7 ''a'')) 5 * 10) = 18 \<and>
   avg_energy (applyReview ex_energy7 ''a'' None (Some 5) 0)
     \<noteq> specAvgEnergy (avg_energy (prevOf ex_energy7 ''a''))
         (count (prevOf ex_energy7 ''a'')) 5 \<and>
   Math_round (avg_energy (applyReview ex_energy7 ''a'' None (Some 1) 0) * 10) = 13 \<and>
   Math_round (specAvgEnergy (7 / 5) 7 1 * 10) = 14"
  unfolding ex_energy7_prev ex_energy7_1 ex_energy7_5 spec_vals
  by (simp add: ex_energy_four Math_eval)

text \<open>
  Claim C7, amended. The learning update is the incremental mean. With \<open>prev\<close> the
  stored record (or the initial one, all zero): the count grows by one on every review;
  the average duration becomes \<open>round((avg * count + actual) / (count + 1))\<close> when an
  actual duration was supplied (\<open>actualMin\<close>, that is \<open>parseInt(...) || null\<close>, is not
  \<open>null\<close>) and is unchanged otherwise; the average energy follows the same formula
  rounded to one decimal, with every operation rounded to the nearest double, when an
  actual energy was supplied and is unchanged otherwise; \<open>last_done\<close> is the completion
  date and \<open>completed_today\<close> is set. From no prior record, a first review with 42
  minutes gives count 1 and average 42, and reviews with 10 and then 20 minutes give
  count 2 and average 15.
\<close>

theorem applyReview_incremental_mean:
  "count (applyReview ld i pm pe d) = count (prevOf ld i) + 1 \<and>
   last_done (applyReview ld i pm pe d) = Some d \<and>
   completed_today (applyReview ld i pm pe d) \<and>
   (\<forall>a. or_null pm = Some a \<longrightarrow>
        avg_duration (applyReview ld i pm pe d) =
          Math_round ((avg_duration (prevOf ld i) * count (prevOf ld i) + a)
                        / (count (prevOf ld i) + 1))) \<and>
   (or_null pm = None \<longrightarrow>
        avg_duration (applyReview ld i pm pe d) = avg_duration (prevOf ld i)) \<and>
   (\<forall>a. or_null pe = Some a \<longrightarrow>
        avg_energy (applyReview ld i pm pe d) =
          double_div
            (Math_round
               (double_mul
                  (double_div
                     (double_add
                        (double_mul (avg_energy (prevOf ld i)) (count (prevOf ld i))) a)
                     (count (prevOf ld i) + 1))
                  10))
            10) \<and>
   (or_null pe = None \<longrightarrow>
        avg_energy (applyReview ld i pm pe d) = avg_energy (prevOf ld i)) \<and>
   (ld i = None \<longrightarrow>
        count (prevOf ld i) = 0 \<and> avg_duration (prevOf ld i) = 0 \<and>
        count (applyReview ld i (Some 42) pe d) = 1 \<and>
        avg_duration (applyReview ld i (Some 42) pe d) = 42 \<and>
        count (applyReview (ld(i \<mapsto> applyReview ld i (Some 10) pe d)) i (Some 20) pe' d') = 2 \<and>
        avg_duration (applyReview (ld(i \<mapsto> applyReview ld i (Some 10) pe d)) i (Some 20) pe' d') = 15)"
proof -
  let ?p = "prevOf ld i"
  let ?r = "applyReview ld i pm pe d"
  have e: "or_num (Some p) 0 = p" for p by simp
  have c: "count ?r = count ?p + 1"
    and l: "last_done ?r = Some d" and t: "completed_today ?r"
    by (simp_all add: applyReview_def Let_def)
  have d1: "avg_duration ?r = Math_round ((avg_duration ?p * count ?p + a) / (count ?p + 1))"
    if "or_null pm = Some a" for a
    using that by (simp add: applyReview_def Let_def)
  have d2: "avg_duration ?r = avg_duration ?p" if "or_null pm = None"
    using that by (simp add: applyReview_def Let_def)
  have e1: "avg_energy ?r =
      double_div (Math_round (double_mul (double_div (double_add
        (double_mul (avg_energy ?p) (count ?p)) a) (count ?p + 1)) 10)) 10"
    if "or_null pe = Some a" for a
    using that unfolding applyReview_def Let_def e by simp
  have e2: "avg_energy ?r = avg_energy ?p" if "or_null pe = None"
    using that by (simp add: applyReview_def Let_def)
  have z: "count ?p = 0" "avg_duration ?p = 0" if "ld i = None"
    using that by (simp_all add: prevOf_def)
  have first: "count (applyReview ld i (Some 42) pe d) = 1"
      "avg_duration (applyReview ld i (Some 42) pe d) = 42" if "ld i = None"
    using that by (simp_all add: applyReview_def prevOf_def Let_def Math_eval)
  show ?thesis
    by (intro conjI allI impI)
       (fact c l t | erule d1 d2 e1 e2 z first applyReview_twice)+
qed

lemma ex_first_energy:
  "double_div
     (Math_round
        (double_mul
           (double_div
              (double_add
                 (double_mul (avg_energy (prevOf Map.empty ''a'')) (count (prevOf Map.empty ''a'')))
                 4)
              (count (prevOf Map.empty ''a'') + 1))
           10))
     10 = 4"
  by code_simp

theorem applyReview_incremental_mean_witness:
  "count (applyReview Map.empty ''a'' (Some 42) (Some 4) 0) = 1 \<and>
   avg_duration (applyReview Map.empty ''a'' (Some 42) (Some 4) 0) = 42 \<and>
   avg_energy (applyReview Map.empty ''a'' (Some 42) (Some 4) 0) = 4 \<and>
   avg_duration (applyReview (Map.empty(''a'' \<mapsto> applyReview Map.empty ''a'' (Some 10) (Some 4) 0))
      ''a'' (Some 20) (Some 4) 0) = 15"
proof -
  note w = applyReview_incremental_mean
    [of Map.empty "''a''" "Some 42" "Some 4" 0 "Some 4" 0]
  have h: "or_null (Some 4) = Some 4" "Map.empty ''a'' = None" by simp_all
  from w h have "avg_energy (applyReview Map.empty ''a'' (Some 42) (Some 4) 0) =
      double_div
        (Math_round
           (double_mul
              (double_div
                 (double_add
                    (double_mul (avg_energy (prevOf Map.empty ''a''))
                       (count (prevOf Map.empty ''a'')))
                    4)
                 (count (prevOf Map.empty ''a'') + 1))
              10))
        10"
    by blast
  then have e: "avg_energy (applyReview Map.empty ''a'' (Some 42) (Some 4) 0) = 4"
    by (simp only: ex_first_energy)
  from w h(2) have
    "count (applyReview Map.empty ''a'' (Some 42) (Some 4) 0) = 1"
    "avg_duration (applyReview Map.empty ''a'' (Some 42) (Some 4) 0) = 42"
    "avg_duration (applyReview (Map.empty(''a'' \<mapsto> applyReview Map.empty ''a'' (Some 10) (Some 4) 0))
      ''a'' (Some 20) (Some 4) 0) = 15"
    by blast+
  with e show ?thesis by blast
qed

subsection \<open>Scoring\<close>

lemma scoreTask_Some:
  assumes "scoreTask t md ld today = Some s"
  shows "task s = t"
    and "effectiveDuration s = or_num (map_option avg_duration (ld (task_id t))) (duration_minutes t)"
    and "effectiveEnergy s = or_num (map_option avg_energy (ld (task_id t))) (energy_required t)"
    and "days_available t = [] \<or> dayNameOf (getDay today) \<in> set (days_available t)"
  using assms by (auto simp: scoreTask_def Let_def split: if_splits)

lemma scoreTask_excluded:
  "days_available t \<noteq> [] \<Longrightarrow> dayNameOf (getDay today) \<notin> set (days_available t) \<Longrightarrow>
   scoreTask t md ld today = None"
  by (simp add: scoreTask_def Let_def)

lemma or_num_nonzero: "d \<noteq> 0 \<Longrightarrow> or_num x d \<noteq> 0"
  by (cases x) auto

lemma scoredTasks_origin:
  assumes "s \<in> set (scoredTasks tasks md ld today)"
  shows "\<exists>t \<in> set tasks. scoreTask t md ld today = Some s \<and> \<not> blocked s"
  using assms by (auto simp: scoredTasks_def List.map_filter_def)

lemma scoredTasks_complete:
  assumes "t \<in> set tasks" "scoreTask t md ld today = Some s" "\<not> blocked s"
  shows "s \<in> set (scoredTasks tasks md ld today)"
  using assms by (force simp: scoredTasks_def List.map_filter_def)

lemma tiers_subset:
  "set (mandatoryTasks sc) \<subseteq> set sc" "set (criticalTasks sc) \<subseteq> set sc"
  "set (normalTasks sc) \<subseteq> set sc"
  by (auto simp: mandatoryTasks_def criticalTasks_def normalTasks_def)

subsection \<open>The three passes\<close>

lemma mandatoryLoop_result:
  "\<exists>new. mandatoryLoop md a ts (p, u) = (p @ new, u + sum_list (map scheduledDuration new))
      \<and> map item new = ts \<and> (\<forall>it \<in> set new. pinned it)"
proof (induction ts arbitrary: p u)
  case Nil
  show ?case by simp
next
  case (Cons t ts)
  define v where "v = pickVariant (task t) (energy md) (sleep md) (a - u) False"
  define it where "it = \<lparr>item = t, scheduledDuration = durationOf t v,
     displayName = displayNameOf t v, variant = v, pinned = True, compressed = False\<rparr>"
  from Cons.IH [of "p @ [it]" "u + durationOf t v"] obtain new where
    n: "mandatoryLoop md a ts (p @ [it], u + durationOf t v) =
          ((p @ [it]) @ new, (u + durationOf t v) + sum_list (map scheduledDuration new))"
       "map item new = ts" "\<forall>x \<in> set new. pinned x"
    by blast
  have step: "mandatoryLoop md a (t # ts) (p, u) = mandatoryLoop md a ts (p @ [it], u + durationOf t v)"
    by (simp add: Let_def v_def it_def)
  have "mandatoryLoop md a (t # ts) (p, u) =
      (p @ (it # new), u + sum_list (map scheduledDuration (it # new)))"
    unfolding step n(1) by (simp add: it_def)
  moreover have "map item (it # new) = t # ts" using n(2) by (simp add: it_def)
  moreover have "\<forall>x \<in> set (it # new). pinned x" using n(3) by (simp add: it_def)
  ultimately show ?case by (intro exI [of _ "it # new"] conjI)
qed

lemma criticalLoop_result:
  "\<exists>new. criticalLoop md a tp ts (p, u) = (p @ new, u + sum_list (map scheduledDuration new))
      \<and> set (map item new) \<subseteq> set ts \<and> (\<forall>it \<in> set new. \<not> pinned it)
      \<and> u + sum_list (map scheduledDuration new) \<le> max u (a + 15)"
proof (induction ts arbitrary: p u)
  case Nil
  show ?case by simp
next
  case (Cons t ts)
  define v where "v = pickVariant (task t) (energy md) (sleep md) (a - u) tp"
  define it where "it = \<lparr>item = t, scheduledDuration = durationOf t v,
     displayName = displayNameOf t v, variant = v, pinned = False,
     compressed = (tp \<and> v \<noteq> None)\<rparr>"
  show ?case
  proof (cases "u + durationOf t v \<le> a + 15")
    case True
    from Cons.IH [of "p @ [it]" "u + durationOf t v"] obtain new where
      n: "criticalLoop md a tp ts (p @ [it], u + durationOf t v) =
            ((p @ [it]) @ new, (u + durationOf t v) + sum_list (map scheduledDuration new))"
         "set (map item new) \<subseteq> set ts" "\<forall>x \<in> set new. \<not> pinned x"
         "(u + durationOf t v) + sum_list (map scheduledDuration new)
            \<le> max (u + durationOf t v) (a + 15)"
      by blast
    have step: "criticalLoop md a tp (t # ts) (p, u) =
        criticalLoop md a tp ts (p @ [it], u + durationOf t v)"
      using True by (simp add: Let_def v_def it_def)
    have "criticalLoop md a tp (t # ts) (p, u) =
        (p @ (it # new), u + sum_list (map scheduledDuration (it # new)))"
      unfolding step n(1) by (simp add: it_def)
    moreover have "set (map item (it # new)) \<subseteq> set (t # ts)"
      using n(2) by (auto simp: it_def)
    moreover have "\<forall>x \<in> set (it # new). \<not> pinned x" using n(3) by (simp add: it_def)
    moreover have "u + sum_list (map scheduledDuration (it # new)) \<le> max u (a + 15)"
      using n(4) True by (simp add: it_def max_def split: if_splits)
    ultimately show ?thesis by blast
  next
    case False
    from Cons.IH [of p u] obtain new where
      n: "criticalLoop md a tp ts (p, u) = (p @ new, u + sum_list (map scheduledDuration new))"
         "set (map item new) \<subseteq> set ts" "\<forall>x \<in> set new. \<not> pinned x"
         "u + sum_list (map scheduledDuration new) \<le> max u (a + 15)"
      by blast
    have step: "criticalLoop md a tp (t # ts) (p, u) = criticalLoop md a tp ts (p, u)"
      using False by (simp add: Let_def v_def)
    have "set (map item new) \<subseteq> set (t # ts)" using n(2) by auto
    then show ?thesis using n(1,3,4) unfolding step by blast
  qed
qed

lemma normalLoop_result:
  "\<exists>new. normalLoop md a ts (p, u) = (p @ new, u + sum_list (map scheduledDuration new))
      \<and> set (map item new) \<subseteq> set ts \<and> (\<forall>it \<in> set new. \<not> pinned it)
      \<and> u + sum_list (map scheduledDuration new) \<le> max u a"
proof (induction ts arbitrary: p u)
  case Nil
  show ?case by simp
next
  case (Cons t ts)
  define np where "np = (u / a > 9 / 10)"
  define v where "v = pickVariant (task t) (energy md) (sleep md) (a - u) np"
  define it where "it = \<lparr>item = t, scheduledDuration = durationOf t v,
     displayName = displayNameOf t v, variant = v, pinned = False,
     compressed = (np \<and> v \<noteq> None)\<rparr>"
  consider (stop) "u \<ge> a" | (admit) "u < a" "u + durationOf t v \<le> a"
    | (skip) "u < a" "\<not> u + durationOf t v \<le> a"
    by linarith
  then show ?case
  proof cases
    case stop
    then have "normalLoop md a (t # ts) (p, u) = (p @ [], u + sum_list (map scheduledDuration []))"
      by simp
    then show ?thesis by (metis empty_iff empty_subsetI list.simps(8) max.cobounded1 set_empty2 list.set(1) add.right_neutral sum_list.Nil)
  next
    case admit
    from Cons.IH [of "p @ [it]" "u + durationOf t v"] obtain new where
      n: "normalLoop md a ts (p @ [it], u + durationOf t v) =
            ((p @ [it]) @ new, (u + durationOf t v) + sum_list (map scheduledDuration new))"
         "set (map item new) \<subseteq> set ts" "\<forall>x \<in> set new. \<not> pinned x"
         "(u + durationOf t v) + sum_list (map scheduledDuration new)
            \<le> max (u + durationOf t v) a"
      by blast
    have step: "normalLoop md a (t # ts) (p, u) =
        normalLoop md a ts (p @ [it], u + durationOf t v)"
      using admit by (simp add: Let_def v_def it_def np_def)
    have "normalLoop md a (t # ts) (p, u) =
        (p @ (it # new), u + sum_list (map scheduledDuration (it # new)))"
      unfolding step n(1) by (simp add: it_def)
    moreover have "set (map item (it # new)) \<subseteq> set (t # ts)"
      using n(2) by (auto simp: it_def)
    moreover have "\<forall>x \<in> set (it # new). \<not> pinned x" using n(3) by (simp add: it_def)
    moreover have "u + sum_list (map scheduledDuration (it # new)) \<le> max u a"
      using n(4) admit by (simp add: it_def max_def split: if_splits)
    ultimately show ?thesis by blast
  next
    case skip
    from Cons.IH [of p u] obtain new where
      n: "normalLoop md a ts (p, u) = (p @ new, u + sum_list (map scheduledDuration new))"
         "set (map item new) \<subseteq> set ts" "\<forall>x \<in> set new. \<not> pinned x"
         "u + sum_list (map scheduledDuration new) \<le> max u a"
      by blast
    have step: "normalLoop md a (t # ts) (p, u) = normalLoop md a ts (p, u)"
      using skip by (simp add: Let_def v_def np_def)
    have "set (map item new) \<subseteq> set (t # ts)" using n(2) by auto
    then show ?thesis using n(1,3,4) unfolding step by blast
  qed
qed

lemma buildDayPlan_structure:
  "\<exists>m c n.
     plan (buildDayPlan tasks md ld today) = m @ c @ n \<and>
     minutesUsed (buildDayPlan tasks md ld today) = sum_list (map scheduledDuration (m @ c @ n)) \<and>
     mandatoryLoop md (hours md * 60) (mandatoryTasks (scoredTasks tasks md ld today)) ([], 0)
       = (m, sum_list (map scheduledDuration m)) \<and>
     map item m = mandatoryTasks (scoredTasks tasks md ld today) \<and>
     (\<forall>it \<in> set m. pinned it) \<and>
     set (map item c) \<subseteq> set (criticalTasks (scoredTasks tasks md ld today)) \<and>
     (\<forall>it \<in> set c. \<not> pinned it) \<and>
     set (map item n) \<subseteq> set (normalTasks (scoredTasks tasks md ld today)) \<and>
     (\<forall>it \<in> set n. \<not> pinned it) \<and>
     sum_list (map scheduledDuration (m @ c @ n))
       \<le> max (sum_list (map scheduledDuration m)) (hours md * 60 + 15)"
proof -
  define a where "a = hours md * 60"
  define sc where "sc = scoredTasks tasks md ld today"
  obtain m where m: "mandatoryLoop md a (mandatoryTasks sc) ([], 0)
        = ([] @ m, 0 + sum_list (map scheduledDuration m))"
      "map item m = mandatoryTasks sc" "\<forall>it \<in> set m. pinned it"
    using mandatoryLoop_result [of md a "mandatoryTasks sc" "[]" 0] by blast
  define u1 where "u1 = sum_list (map scheduledDuration m)"
  have st1: "mandatoryLoop md a (mandatoryTasks sc) ([], 0) = (m, u1)"
    using m(1) by (simp add: u1_def)
  define tp where "tp = (critMinsNormalOf (criticalTasks sc) > a - u1)"
  obtain c where c: "criticalLoop md a tp (criticalTasks sc) (m, u1)
        = (m @ c, u1 + sum_list (map scheduledDuration c))"
      "set (map item c) \<subseteq> set (criticalTasks sc)" "\<forall>it \<in> set c. \<not> pinned it"
      "u1 + sum_list (map scheduledDuration c) \<le> max u1 (a + 15)"
    using criticalLoop_result [of md a tp "criticalTasks sc" m u1] by blast
  define u2 where "u2 = u1 + sum_list (map scheduledDuration c)"
  obtain n where n: "normalLoop md a (normalTasks sc) (m @ c, u2)
        = ((m @ c) @ n, u2 + sum_list (map scheduledDuration n))"
      "set (map item n) \<subseteq> set (normalTasks sc)" "\<forall>it \<in> set n. \<not> pinned it"
      "u2 + sum_list (map scheduledDuration n) \<le> max u2 a"
    using normalLoop_result [of md a "normalTasks sc" "m @ c" u2] by blast
  have st2: "criticalLoop md a tp (criticalTasks sc) (m, u1) = (m @ c, u2)"
    using c(1) by (simp add: u2_def)
  have st3: "normalLoop md a (normalTasks sc) (m @ c, u2)
      = (m @ c @ n, sum_list (map scheduledDuration (m @ c @ n)))"
    using n(1) by (simp add: u2_def u1_def)
  have p: "plan (buildDayPlan tasks md ld today) = m @ c @ n"
    by (simp add: buildDayPlan_def Let_def a_def [symmetric] sc_def [symmetric] st1
                  tp_def [symmetric] st2 st3)
  have mu: "minutesUsed (buildDayPlan tasks md ld today)
      = sum_list (map scheduledDuration (m @ c @ n))"
    by (simp add: buildDayPlan_def Let_def a_def [symmetric] sc_def [symmetric] st1
                  tp_def [symmetric] st2 st3)
  have bound: "sum_list (map scheduledDuration (m @ c @ n)) \<le> max u1 (a + 15)"
    using c(4) n(4) by (simp add: u2_def u1_def max_def split: if_splits)
  show ?thesis
    using p mu st1 m(2,3) c(2,3) n(2,3) bound
    unfolding u1_def a_def sc_def
    by (intro exI [of _ m] exI [of _ c] exI [of _ n] conjI)
qed

lemma filter_pinned:
  assumes "\<forall>it \<in> set m. pinned it" "\<forall>it \<in> set c. \<not> pinned it" "\<forall>it \<in> set n. \<not> pinned it"
  shows "filter pinned (m @ c @ n) = m"
  using assms by (simp add: filter_empty_conv)

lemma availableMinutes_buildDayPlan:
  "availableMinutes (buildDayPlan tasks md ld today) = hours md * 60"
  by (simp add: buildDayPlan_def Let_def)

lemma plan_items_scored:
  assumes "it \<in> set (plan (buildDayPlan tasks md ld today))"
  shows "item it \<in> set (scoredTasks tasks md ld today)"
proof -
  obtain m c n where p:
    "plan (buildDayPlan tasks md ld today) = m @ c @ n"
    "map item m = mandatoryTasks (scoredTasks tasks md ld today)"
    "set (map item c) \<subseteq> set (criticalTasks (scoredTasks tasks md ld today))"
    "set (map item n) \<subseteq> set (normalTasks (scoredTasks tasks md ld today))"
    using buildDayPlan_structure [of tasks md ld today] by blast
  have "set (map item m) \<subseteq> set (mandatoryTasks (scoredTasks tasks md ld today))"
    using p(2) by simp
  then have "item ` set (m @ c @ n) \<subseteq> set (scoredTasks tasks md ld today)"
    using p(3,4) tiers_subset [of "scoredTasks tasks md ld today"] by auto
  then show ?thesis using assms p(1) by auto
qed

lemma plan_items_origin:
  assumes "it \<in> set (plan (buildDayPlan tasks md ld today))"
  shows "scoreTask (task (item it)) md ld today = Some (item it)"
proof -
  from plan_items_scored [OF assms] obtain t where
    t: "scoreTask t md ld today = Some (item it)"
    using scoredTasks_origin by blast
  then have "task (item it) = t" by (rule scoreTask_Some(1))
  with t show ?thesis by simp
qed

lemma foldl_plus_sum_list:
  "foldl (\<lambda>s t. s + f t) z xs = z + sum_list (map f xs)"
  for z :: rat
  by (induction xs arbitrary: z) simp_all

lemma critMinsNormalOf_sum: "critMinsNormalOf cs = sum_list (map effectiveDuration cs)"
  by (simp add: critMinsNormalOf_def foldl_plus_sum_list)

lemma critMinsCompressedOf_sum:
  "critMinsCompressedOf cs = sum_list (map compressedDuration cs)"
proof -
  have "(\<lambda>s t. if variants (task t) = [] then s + effectiveDuration t
        else (let shortest = min_list (map v_duration_minutes (variants (task t)))
              in s + min (effectiveDuration t) shortest))
      = (\<lambda>s t. s + compressedDuration t)"
    by (intro ext) (simp add: compressedDuration_def Let_def min_list_Min)
  then show ?thesis
    by (simp add: critMinsCompressedOf_def foldl_plus_sum_list)
qed

lemma mandatory_minutes:
  "snd (mandatoryLoop md (hours md * 60) (mandatoryTasks (scoredTasks tasks md ld today)) ([], 0))
     = sum_list (map scheduledDuration (filter pinned (plan (buildDayPlan tasks md ld today))))"
proof -
  obtain m c n where s:
    "plan (buildDayPlan tasks md ld today) = m @ c @ n"
    "mandatoryLoop md (hours md * 60) (mandatoryTasks (scoredTasks tasks md ld today)) ([], 0)
       = (m, sum_list (map scheduledDuration m))"
    "\<forall>it \<in> set m. pinned it" "\<forall>it \<in> set c. \<not> pinned it" "\<forall>it \<in> set n. \<not> pinned it"
    using buildDayPlan_structure [of tasks md ld today] by blast
  have "filter pinned (plan (buildDayPlan tasks md ld today)) = m"
    unfolding s(1) using s(3,4,5) by (rule filter_pinned)
  then show ?thesis by (simp add: s(2))
qed

lemma buildDayPlan_alerts:
  "alerts (buildDayPlan tasks md ld today) =
     (let nominal = sum_list (map effectiveDuration
                      (criticalTasks (scoredTasks tasks md ld today)));
          squeezed = sum_list (map compressedDuration
                       (criticalTasks (scoredTasks tasks md ld today)));
          remaining = availableMinutes (buildDayPlan tasks md ld today)
            - sum_list (map scheduledDuration
                 (filter pinned (plan (buildDayPlan tasks md ld today))))
      in (if nominal > remaining then
            (if squeezed \<le> remaining then [\<lparr>type = ''warning'', message = TimeTight\<rparr>]
             else [\<lparr>type = ''error'',
                    message = CriticalShort (Math_round (squeezed / 60 * 10) / 10)
                                (Math_round (remaining / 60 * 10) / 10)
                                (Math_round (squeezed - remaining))\<rparr>])
          else []))
     @ (if list_ex (\<lambda>s. overduePts s > 10) (scoredTasks tasks md ld today)
        then [\<lparr>type = ''warning'', message = OverduePromoted\<rparr>] else [])
     @ (if energy md \<le> 3 \<or> sleep md = ''terrible''
        then [\<lparr>type = ''info'', message = LowEnergyDetected\<rparr>] else [])"
proof -
  have ov: "(filter (\<lambda>t. overduePts t > 10) sc \<noteq> []) = list_ex (\<lambda>s. overduePts s > 10) sc"
    for sc :: "scored list"
    by (simp add: filter_empty_conv list_ex_iff)
  show ?thesis
    unfolding mandatory_minutes [symmetric] availableMinutes_buildDayPlan
      critMinsNormalOf_sum [symmetric] critMinsCompressedOf_sum [symmetric]
    by (simp add: buildDayPlan_def Let_def ov)
qed

subsection \<open>The example inputs, evaluated\<close>

lemma ex_long_scored:
  "scoreTask ex_long ex_morning Map.empty ex_today =
     Some \<lparr>task = ex_long, score = 85 / 2, urgency = 0, criticality = 25, energyFit = 35 / 2,
       overduePts = 0, effectiveDuration = 100, effectiveEnergy = 5, blocked = False\<rparr>"
  by (simp add: scoreTask_def urgencyOf_def overduePtsOf_def SLEEP_SCORES_def Let_def
        ex_long_def ex_task_def ex_morning_def ex_today_def)

lemma ex_long_plan:
  "map scheduledDuration (plan (buildDayPlan [ex_long] ex_morning Map.empty ex_today)) = [100]"
  "map pinned (plan (buildDayPlan [ex_long] ex_morning Map.empty ex_today)) = [True]"
  "availableMinutes (buildDayPlan [ex_long] ex_morning Map.empty ex_today) = 60"
  by (simp_all add: buildDayPlan_def scoredTasks_def mandatoryTasks_def criticalTasks_def
        normalTasks_def List.map_filter_def ex_long_scored Let_def pickVariant_def durationOf_def)
     (simp_all add: ex_long_def ex_task_def ex_morning_def)

lemma ex_weekday_plan:
  "plan (buildDayPlan [ex_weekday] ex_morning Map.empty ex_today) = []"
  "blocked_tasks (buildDayPlan [ex_weekday] ex_morning Map.empty ex_today) = []"
  by (simp_all add: buildDayPlan_def scoredTasks_def mandatoryTasks_def criticalTasks_def
        normalTasks_def List.map_filter_def Let_def scoreTask_def
        ex_weekday_def ex_task_def ex_today_def)

lemma ex_history_a:
  "ex_history ''a'' = Some \<lparr>count = 1, avg_duration = 0, avg_energy = 0,
      last_done = Some 0, completed_today = True\<rparr>"
  by (simp add: ex_history_def applyReview_def prevOf_def Let_def)

lemma ex_task_scored_history:
  "scoreTask ex_task ex_morning ex_history ex_today =
     Some \<lparr>task = ex_task, score = 115 / 2, urgency = 0, criticality = 25, energyFit = 35 / 2,
       overduePts = 15, effectiveDuration = 30, effectiveEnergy = 5, blocked = False\<rparr>"
  by (simp add: scoreTask_def urgencyOf_def overduePtsOf_def SLEEP_SCORES_def FREQ_DAYS_def
        Let_def ex_history_a ex_task_def ex_morning_def ex_today_def)

lemma ex_crit_scored:
  "scoredTasks [ex_crit, ex_crit2] ex_morning150 Map.empty ex_today =
     [\<lparr>task = ex_crit, score = 35, urgency = 0, criticality = 15, energyFit = 20,
        overduePts = 0, effectiveDuration = 100, effectiveEnergy = 6, blocked = False\<rparr>,
      \<lparr>task = ex_crit2, score = 35, urgency = 0, criticality = 15, energyFit = 20,
        overduePts = 0, effectiveDuration = 100, effectiveEnergy = 6, blocked = False\<rparr>]"
  by (simp add: scoredTasks_def List.map_filter_def scoreTask_def urgencyOf_def overduePtsOf_def
        SLEEP_SCORES_def Let_def ex_crit2_def ex_crit_def ex_morning150_def)

lemma ex_crit_tiers:
  "mandatoryTasks (scoredTasks [ex_crit, ex_crit2] ex_morning150 Map.empty ex_today) = []"
  "criticalTasks (scoredTasks [ex_crit, ex_crit2] ex_morning150 Map.empty ex_today) =
     scoredTasks [ex_crit, ex_crit2] ex_morning150 Map.empty ex_today"
  "normalTasks (scoredTasks [ex_crit, ex_crit2] ex_morning150 Map.empty ex_today) = []"
  unfolding ex_crit_scored
  by (simp_all add: mandatoryTasks_def criticalTasks_def normalTasks_def ex_crit2_def ex_crit_def)

lemma ex_crit_sums:
  "sum_list (map effectiveDuration
     (criticalTasks (scoredTasks [ex_crit, ex_crit2] ex_morning150 Map.empty ex_today))) = 200"
  "sum_list (map compressedDuration
     (criticalTasks (scoredTasks [ex_crit, ex_crit2] ex_morning150 Map.empty ex_today))) = 120"
  unfolding ex_crit_tiers
  unfolding ex_crit_scored
  by (simp_all add: compressedDuration_def ex_crit2_def ex_crit_def)

lemma ex_crit_plan:
  "map scheduledDuration (plan (buildDayPlan [ex_crit, ex_crit2] ex_morning150 Map.empty ex_today))
     = [60, 60]"
  "map pinned (plan (buildDayPlan [ex_crit, ex_crit2] ex_morning150 Map.empty ex_today))
     = [False, False]"
  "map compressed (plan (buildDayPlan [ex_crit, ex_crit2] ex_morning150 Map.empty ex_today))
     = [True, True]"
  unfolding buildDayPlan_def Let_def ex_crit_tiers
  unfolding ex_crit_scored
  by (simp_all add: critMinsNormalOf_def critMinsCompressedOf_def pickVariant_def durationOf_def
        Let_def ex_crit2_def ex_crit_def ex_morning150_def)

lemma ex_history_scored:
  "scoredTasks [ex_task] ex_morning ex_history ex_today =
     [\<lparr>task = ex_task, score = 115 / 2, urgency = 0, criticality = 25, energyFit = 35 / 2,
       overduePts = 15, effectiveDuration = 30, effectiveEnergy = 5, blocked = False\<rparr>]"
  by (simp add: scoredTasks_def List.map_filter_def ex_task_scored_history)

lemma ex_history_plan:
  "map scheduledDuration (plan (buildDayPlan [ex_task] ex_morning ex_history ex_today)) = [30]"
  "map pinned (plan (buildDayPlan [ex_task] ex_morning ex_history ex_today)) = [True]"
  unfolding buildDayPlan_def Let_def ex_history_scored
  by (simp_all add: mandatoryTasks_def criticalTasks_def normalTasks_def pickVariant_def
        durationOf_def ex_task_def)

lemma ex_history_alerts:
  "alerts (buildDayPlan [ex_task] ex_morning ex_history ex_today)
     = [\<lparr>type = ''warning'', message = OverduePromoted\<rparr>]"
  unfolding buildDayPlan_def Let_def ex_history_scored
  by (simp add: mandatoryTasks_def criticalTasks_def normalTasks_def pickVariant_def
        durationOf_def critMinsNormalOf_def critMinsCompressedOf_def ex_task_def ex_morning_def)

lemma ex_low_scored:
  "map overduePts (scoredTasks [ex_task] ex_morning_low ex_history ex_today) = [15]"
  by (simp add: scoredTasks_def List.map_filter_def scoreTask_def urgencyOf_def overduePtsOf_def
        SLEEP_SCORES_def FREQ_DAYS_def Let_def ex_history_a ex_task_def ex_morning_low_def
        ex_today_def)

subsection \<open>The time budget\<close>

text \<open>
  Claim C1 as stated (the scheduled durations of every plan sum to at most
  \<open>availableMinutes + 15\<close>, also when mandatory tasks are present) fails: one mandatory
  task of 100 minutes on a day of one hour is planned in full, 100 minutes against a
  bound of 75.
\<close>

theorem buildDayPlan_budget_counterexample:
  "\<not> sum_list (map scheduledDuration (plan (buildDayPlan [ex_long] ex_morning Map.empty ex_today)))
       \<le> availableMinutes (buildDayPlan [ex_long] ex_morning Map.empty ex_today) + 15"
  by (simp add: ex_long_plan)

text \<open>
  Claim C1, amended. The scheduled durations of a plan sum to at most the larger of
  \<open>availableMinutes + 15\<close> and the total scheduled for the pinned (mandatory) items:
  the mandatory pass is admitted whatever the budget, and the critical and normal
  passes never push the total beyond the grace band.
\<close>

theorem buildDayPlan_budget:
  "sum_list (map scheduledDuration (plan (buildDayPlan tasks md ld today)))
     \<le> max (availableMinutes (buildDayPlan tasks md ld today) + 15)
            (sum_list (map scheduledDuration
                (filter pinned (plan (buildDayPlan tasks md ld today)))))"
proof -
  obtain m c n where s:
    "plan (buildDayPlan tasks md ld today) = m @ c @ n"
    "\<forall>it \<in> set m. pinned it" "\<forall>it \<in> set c. \<not> pinned it" "\<forall>it \<in> set n. \<not> pinned it"
    "sum_list (map scheduledDuration (m @ c @ n))
       \<le> max (sum_list (map scheduledDuration m)) (hours md * 60 + 15)"
    using buildDayPlan_structure [of tasks md ld today] by blast
  have "filter pinned (plan (buildDayPlan tasks md ld today)) = m"
    unfolding s(1) using s(2,3,4) by (rule filter_pinned)
  then show ?thesis
    using s(5) by (simp add: s(1) availableMinutes_buildDayPlan max.commute)
qed

theorem buildDayPlan_budget_witness:
  "sum_list (map scheduledDuration (plan (buildDayPlan [ex_long] ex_morning Map.empty ex_today)))
     \<le> max (60 + 15) 100"
proof -
  have f: "filter pinned (plan (buildDayPlan [ex_long] ex_morning Map.empty ex_today))
      = plan (buildDayPlan [ex_long] ex_morning Map.empty ex_today)"
    using ex_long_plan(2) by (auto simp: filter_id_conv dest: arg_cong [where f = set])
  show ?thesis
    using buildDayPlan_budget [of "[ex_long]" ex_morning Map.empty ex_today]
    unfolding f by (simp add: ex_long_plan)
qed

subsection \<open>Mandatory tasks\<close>

text \<open>
  Claim C2. Every mandatory task of the task list that passes the weekday filter and is
  not blocked (each of its blockers is completed today) appears in the plan, flagged
  \<open>pinned\<close>, whatever the available minutes are, zero and negative included.
\<close>

theorem mandatory_always_planned:
  assumes "t \<in> set tasks" and "mandatory t"
    and "days_available t = [] \<or> dayNameOf (getDay today) \<in> set (days_available t)"
    and "\<forall>b \<in> set (blockers t). \<exists>r. ld b = Some r \<and> completed_today r"
  shows "\<exists>it \<in> set (plan (buildDayPlan tasks md ld today)). task (item it) = t \<and> pinned it"
proof -
  have nb: "\<not> list_ex (\<lambda>b. \<not> (case ld b of None \<Rightarrow> False | Some r \<Rightarrow> completed_today r)) (blockers t)"
    using assms(4) by (auto simp: list_ex_iff)
  obtain s where s: "scoreTask t md ld today = Some s" "\<not> blocked s" "task s = t"
    using assms(3) nb by (auto simp: scoreTask_def Let_def)
  have "s \<in> set (scoredTasks tasks md ld today)"
    using assms(1) s(1,2) by (rule scoredTasks_complete)
  then have sm: "s \<in> set (mandatoryTasks (scoredTasks tasks md ld today))"
    using assms(2) s(3) by (simp add: mandatoryTasks_def)
  obtain m c n where p:
    "plan (buildDayPlan tasks md ld today) = m @ c @ n"
    "map item m = mandatoryTasks (scoredTasks tasks md ld today)"
    "\<forall>it \<in> set m. pinned it"
    using buildDayPlan_structure [of tasks md ld today] by blast
  from sm p(2) have "s \<in> item ` set m" by (metis set_map)
  then obtain it where "it \<in> set m" "item it = s" by auto
  then show ?thesis using p(1,3) s(3) by auto
qed

theorem mandatory_always_planned_witness:
  "ex_long \<in> set [ex_long] \<and> mandatory ex_long \<and>
   availableMinutes (buildDayPlan [ex_long] ex_morning0 Map.empty ex_today) = 0 \<and>
   (\<exists>it \<in> set (plan (buildDayPlan [ex_long] ex_morning0 Map.empty ex_today)).
       task (item it) = ex_long \<and> pinned it)"
proof -
  have h1: "ex_long \<in> set [ex_long]" by simp
  have h2: "mandatory ex_long" by (simp add: ex_long_def ex_task_def)
  have h3: "days_available ex_long = [] \<or>
      dayNameOf (getDay ex_today) \<in> set (days_available ex_long)"
    by (simp add: ex_long_def ex_task_def)
  have h4: "\<forall>b \<in> set (blockers ex_long). \<exists>r. Map.empty b = Some r \<and> completed_today r"
    by (simp add: ex_long_def ex_task_def)
  have a: "availableMinutes (buildDayPlan [ex_long] ex_morning0 Map.empty ex_today) = 0"
    by (simp add: availableMinutes_buildDayPlan ex_morning0_def)
  show ?thesis
    using h1 h2 a mandatory_always_planned [OF h1 h2 h3 h4, of ex_morning0] by blast
qed

subsection \<open>The weekday filter\<close>

text \<open>
  Claim C8. For a task whose \<open>days_available\<close> is non-empty and does not include
  today's weekday, \<open>scoreTask\<close> returns \<open>null\<close>, and the task appears neither in the
  plan nor in the blocked list of \<open>buildDayPlan\<close>.
\<close>

theorem excluded_day_not_planned:
  assumes "days_available t \<noteq> []"
    and "dayNameOf (getDay today) \<notin> set (days_available t)"
  shows "scoreTask t md ld today = None \<and>
         (\<forall>it \<in> set (plan (buildDayPlan tasks md ld today)). task (item it) \<noteq> t) \<and>
         t \<notin> set (blocked_tasks (buildDayPlan tasks md ld today))"
proof -
  have none: "scoreTask t md ld today = None"
    using assms by (rule scoreTask_excluded)
  have "task (item it) \<noteq> t" if "it \<in> set (plan (buildDayPlan tasks md ld today))" for it
    using plan_items_origin [OF that] none by auto
  moreover have "t \<notin> set (blocked_tasks (buildDayPlan tasks md ld today))"
    using none by (simp add: buildDayPlan_def Let_def)
  ultimately show ?thesis using none by blast
qed

theorem excluded_day_not_planned_witness:
  "days_available ex_weekday \<noteq> [] \<and>
   dayNameOf (getDay ex_today) \<notin> set (days_available ex_weekday) \<and>
   scoreTask ex_weekday ex_morning Map.empty ex_today = None \<and>
   plan (buildDayPlan [ex_weekday] ex_morning Map.empty ex_today) = [] \<and>
   blocked_tasks (buildDayPlan [ex_weekday] ex_morning Map.empty ex_today) = []"
proof -
  have h1: "days_available ex_weekday \<noteq> []"
    and h2: "dayNameOf (getDay ex_today) \<notin> set (days_available ex_weekday)"
    by (simp_all add: ex_weekday_def ex_task_def ex_today_def)
  show ?thesis
    using h1 h2 excluded_day_not_planned [OF h1 h2, of ex_morning Map.empty "[ex_weekday]"] ex_weekday_plan
    by blast
qed

subsection \<open>Effective duration and energy\<close>

text \<open>
  Claim C10. When a learned record exists but its stored average duration (or energy)
  is 0, as in a record created by a review that supplied no actual, \<open>scoreTask\<close> falls
  back to the task's nominal \<open>duration_minutes\<close> (or \<open>energy_required\<close>); so for a task
  with \<open>duration_minutes \<ge> 1\<close> the effective duration is never 0, in the scorer's
  result and in every entry of the plan.
\<close>

theorem effective_values_fallback:
  "(scoreTask t md ld today = Some s \<longrightarrow>
      (\<forall>r. ld (task_id t) = Some r \<and> avg_duration r = 0
            \<longrightarrow> effectiveDuration s = duration_minutes t) \<and>
      (\<forall>r. ld (task_id t) = Some r \<and> avg_energy r = 0
            \<longrightarrow> effectiveEnergy s = energy_required t) \<and>
      (duration_minutes t \<ge> 1 \<longrightarrow> effectiveDuration s \<noteq> 0)) \<and>
   (ld0 i = None \<longrightarrow>
      avg_duration (applyReview ld0 i None pe d) = 0 \<and>
      avg_energy (applyReview ld0 i pm None d) = 0) \<and>
   (\<forall>it \<in> set (plan (buildDayPlan tasks md ld today)).
      duration_minutes (task (item it)) \<ge> 1 \<longrightarrow> effectiveDuration (item it) \<noteq> 0)"
proof -
  have nz: "effectiveDuration s' \<noteq> 0"
    if "scoreTask t' md ld today = Some s'" "duration_minutes t' \<ge> 1" for t' s'
  proof -
    have "duration_minutes t' \<noteq> 0" using that(2) by auto
    then show ?thesis
      unfolding scoreTask_Some(2) [OF that(1)] by (rule or_num_nonzero)
  qed
  have a: "scoreTask t md ld today = Some s \<longrightarrow>
      (\<forall>r. ld (task_id t) = Some r \<and> avg_duration r = 0
            \<longrightarrow> effectiveDuration s = duration_minutes t) \<and>
      (\<forall>r. ld (task_id t) = Some r \<and> avg_energy r = 0
            \<longrightarrow> effectiveEnergy s = energy_required t) \<and>
      (duration_minutes t \<ge> 1 \<longrightarrow> effectiveDuration s \<noteq> 0)"
    using nz [of t s] by (auto simp: scoreTask_Some(2,3))
  have b: "ld0 i = None \<longrightarrow>
      avg_duration (applyReview ld0 i None pe d) = 0 \<and>
      avg_energy (applyReview ld0 i pm None d) = 0"
    by (simp add: applyReview_def prevOf_def Let_def)
  have c: "\<forall>it \<in> set (plan (buildDayPlan tasks md ld today)).
      duration_minutes (task (item it)) \<ge> 1 \<longrightarrow> effectiveDuration (item it) \<noteq> 0"
    using nz plan_items_origin by blast
  show ?thesis using a b c by blast
qed

theorem effective_values_fallback_witness:
  "(\<exists>s r. scoreTask ex_task ex_morning ex_history ex_today = Some s \<and>
       ex_history (task_id ex_task) = Some r \<and> avg_duration r = 0 \<and> avg_energy r = 0 \<and>
       duration_minutes ex_task \<ge> 1 \<and>
       effectiveDuration s = 30 \<and> effectiveEnergy s = 5)"
proof -
  let ?s = "\<lparr>task = ex_task, score = 115 / 2, urgency = 0, criticality = 25, energyFit = 35 / 2,
       overduePts = 15, effectiveDuration = 30, effectiveEnergy = 5, blocked = False\<rparr>"
  let ?r = "\<lparr>count = 1, avg_duration = 0, avg_energy = 0,
      last_done = Some 0, completed_today = True\<rparr>"
  have r: "ex_history (task_id ex_task) = Some ?r"
    using ex_history_a by (simp add: ex_task_def)
  have d: "duration_minutes ex_task = 30" "energy_required ex_task = 5"
    by (simp_all add: ex_task_def)
  note w = effective_values_fallback [of ex_task ex_morning ex_history ex_today ?s Map.empty "''a''" None 0 None "[]"]
  from w ex_task_scored_history r have "effectiveDuration ?s = duration_minutes ex_task"
    by simp
  then show ?thesis
    using ex_task_scored_history r d by (intro exI [of _ ?s] exI [of _ ?r]) simp
qed

subsection \<open>Alerts\<close>

text \<open>
  Claim C4. With \<open>nominal\<close> the sum of the critical tasks' effective durations,
  \<open>squeezed\<close> their compressed total and \<open>remaining\<close> the available minutes less the
  minutes the mandatory pass used, the alerts about time pressure are: none when
  \<open>nominal \<le> remaining\<close> (no time pressure); otherwise exactly one, a warning when
  \<open>squeezed \<le> remaining\<close> and else an error that names the shortfall
  \<open>round(squeezed - remaining)\<close>. With 200 nominal and 120 compressed minutes against
  150 remaining, the plan carries the warning and no error alert.
\<close>

theorem time_pressure_alerts:
  fixes tasks md ld today
  defines "r \<equiv> buildDayPlan tasks md ld today"
    and "crit \<equiv> criticalTasks (scoredTasks tasks md ld today)"
  defines "remaining \<equiv> availableMinutes r
             - sum_list (map scheduledDuration (filter pinned (plan r)))"
    and "nominal \<equiv> sum_list (map effectiveDuration crit)"
    and "squeezed \<equiv> sum_list (map compressedDuration crit)"
  shows "filter (\<lambda>a. message a \<noteq> OverduePromoted \<and> message a \<noteq> LowEnergyDetected) (alerts r) =
           (if nominal > remaining then
              (if squeezed \<le> remaining then [\<lparr>type = ''warning'', message = TimeTight\<rparr>]
               else [\<lparr>type = ''error'',
                      message = CriticalShort (Math_round (squeezed / 60 * 10) / 10)
                                  (Math_round (remaining / 60 * 10) / 10)
                                  (Math_round (squeezed - remaining))\<rparr>])
            else [])
         \<and> (nominal = 200 \<and> squeezed = 120 \<and> remaining = 150 \<longrightarrow>
              \<lparr>type = ''warning'', message = TimeTight\<rparr> \<in> set (alerts r) \<and>
              (\<forall>a \<in> set (alerts r). type a \<noteq> ''error''))"
  unfolding r_def crit_def remaining_def nominal_def squeezed_def
  by (subst (1 2 3) buildDayPlan_alerts) (auto simp: Let_def)

theorem time_pressure_alerts_witness:
  "sum_list (map effectiveDuration
     (criticalTasks (scoredTasks [ex_crit, ex_crit2] ex_morning150 Map.empty ex_today))) = 200 \<and>
   sum_list (map compressedDuration
     (criticalTasks (scoredTasks [ex_crit, ex_crit2] ex_morning150 Map.empty ex_today))) = 120 \<and>
   availableMinutes (buildDayPlan [ex_crit, ex_crit2] ex_morning150 Map.empty ex_today)
     - sum_list (map scheduledDuration (filter pinned
         (plan (buildDayPlan [ex_crit, ex_crit2] ex_morning150 Map.empty ex_today)))) = 150 \<and>
   \<lparr>type = ''warning'', message = TimeTight\<rparr>
     \<in> set (alerts (buildDayPlan [ex_crit, ex_crit2] ex_morning150 Map.empty ex_today)) \<and>
   ''error'' \<notin> set (map type
       (alerts (buildDayPlan [ex_crit, ex_crit2] ex_morning150 Map.empty ex_today)))"
proof -
  let ?r = "buildDayPlan [ex_crit, ex_crit2] ex_morning150 Map.empty ex_today"
  have f: "filter pinned (plan ?r) = []"
    using ex_crit_plan(2) by (auto simp: filter_empty_conv dest: arg_cong [where f = set])
  have rem: "availableMinutes ?r - sum_list (map scheduledDuration (filter pinned (plan ?r))) = 150"
    unfolding f by (simp add: availableMinutes_buildDayPlan ex_morning150_def)
  note w = time_pressure_alerts [of "[ex_crit, ex_crit2]" ex_morning150 Map.empty ex_today]
  from w ex_crit_sums rem
  have "\<lparr>type = ''warning'', message = TimeTight\<rparr> \<in> set (alerts ?r) \<and>
        (\<forall>a \<in> set (alerts ?r). type a \<noteq> ''error'')"
    by blast
  then show ?thesis using ex_crit_sums rem by auto
qed

text \<open>
  Claim C6 as stated gives the alert "Overdue tasks auto-promoted" the severity \<open>info\<close>.
  The code pushes it with the type \<open>warning\<close>: for a daily task last done ten days ago
  (overdue bonus 15) the only alert is that warning, and no \<open>info\<close> alert carries the
  overdue message.
\<close>

theorem overdue_alert_counterexample:
  "map overduePts (scoredTasks [ex_task] ex_morning ex_history ex_today) = [15] \<and>
   alerts (buildDayPlan [ex_task] ex_morning ex_history ex_today)
     = [\<lparr>type = ''warning'', message = OverduePromoted\<rparr>] \<and>
   \<lparr>type = ''info'', message = OverduePromoted\<rparr>
     \<notin> set (alerts (buildDayPlan [ex_task] ex_morning ex_history ex_today))"
  by (simp add: ex_history_alerts ex_history_scored)

text \<open>
  Claim C6, amended. \<open>buildDayPlan\<close> appends the alert "Overdue tasks auto-promoted",
  of severity \<open>warning\<close>, exactly when some scored task's overdue bonus exceeds 10, and
  an alert of severity \<open>info\<close> ("low-energy bonus active") when the context energy is at
  most 3 or the sleep is "terrible".
\<close>

theorem overdue_and_low_energy_alerts:
  "(\<lparr>type = ''warning'', message = OverduePromoted\<rparr>
       \<in> set (alerts (buildDayPlan tasks md ld today))
     \<longleftrightarrow> (\<exists>s \<in> set (scoredTasks tasks md ld today). overduePts s > 10)) \<and>
   (\<forall>a \<in> set (alerts (buildDayPlan tasks md ld today)).
       message a = OverduePromoted \<longrightarrow> type a = ''warning'') \<and>
   (energy md \<le> 3 \<or> sleep md = ''terrible'' \<longrightarrow>
      \<lparr>type = ''info'', message = LowEnergyDetected\<rparr>
        \<in> set (alerts (buildDayPlan tasks md ld today)))"
  by (subst (1 2 3) buildDayPlan_alerts) (auto simp: Let_def list_ex_iff)

theorem overdue_and_low_energy_alerts_witness:
  "\<lparr>type = ''warning'', message = OverduePromoted\<rparr>
       \<in> set (alerts (buildDayPlan [ex_task] ex_morning_low ex_history ex_today)) \<and>
   \<lparr>type = ''info'', message = LowEnergyDetected\<rparr>
       \<in> set (alerts (buildDayPlan [ex_task] ex_morning_low ex_history ex_today))"
proof -
  have "15 \<in> set (map overduePts (scoredTasks [ex_task] ex_morning_low ex_history ex_today))"
    by (simp add: ex_low_scored)
  then obtain x where "x \<in> set (scoredTasks [ex_task] ex_morning_low ex_history ex_today)"
      "overduePts x = 15"
    by auto
  then have o: "\<exists>s \<in> set (scoredTasks [ex_task] ex_morning_low ex_history ex_today).
      overduePts s > 10"
    by (intro bexI [of _ x]) simp_all
  have l: "energy ex_morning_low \<le> 3 \<or> sleep ex_morning_low = ''terrible''"
    by (simp add: ex_morning_low_def)
  show ?thesis
    using o l overdue_and_low_energy_alerts [of "[ex_task]" ex_morning_low ex_history ex_today] by blast
qed

end
